theory Spec2Isabelle
  imports Complex_Main
begin

section \<open>Numbers\<close>

text \<open>
  The program is TypeScript; every \<^verbatim>\<open>number\<close> is an IEEE double there. The
  embedding reads stat values, rates and elapsed times as \<^typ>\<open>real\<close> (exact
  arithmetic), hours of the day, timestamps, prices and durations as \<^typ>\<open>int\<close>, and
  counters as \<^typ>\<open>nat\<close>. \<^verbatim>\<open>Math.max\<close>, \<^verbatim>\<open>Math.min\<close> and \<^verbatim>\<open>Math.abs\<close> are
  \<^const>\<open>max\<close>, \<^const>\<open>min\<close> and \<^const>\<open>abs\<close>. The one place where the last bit of
  a double decides an outcome is the report's score, which is rounded to an integer: its
  arithmetic is embedded with the rounding of the doubles, below.
\<close>

definition round_js :: "real \<Rightarrow> int" where
  \<comment> \<open>\<^verbatim>\<open>Math.round\<close>: the nearest integer, a tie going up.\<close>
  "round_js x = \<lfloor>x + 1 / 2\<rfloor>"

definition truthy :: "real option \<Rightarrow> bool" where
  \<comment> \<open>An optional number used as a condition: \<^verbatim>\<open>undefined\<close> and \<^verbatim>\<open>0\<close> are falsy.\<close>
  "truthy v = (case v of None \<Rightarrow> False | Some x \<Rightarrow> x \<noteq> 0)"

definition num :: "real option \<Rightarrow> real" where
  \<comment> \<open>The number read from an optional field after its \<^const>\<open>truthy\<close> test passed.\<close>
  "num v = (case v of None \<Rightarrow> 0 | Some x \<Rightarrow> x)"

subsection \<open>Double arithmetic\<close>

text \<open>
  IEEE 754 binary64 with the default rounding, on the finite values: a double is
  \<open>m \<times> 2^q\<close> with \<open>|m| < 2^53\<close> and \<open>q \<ge> -1074\<close>, and every operation
  returns the double nearest to the exact result, a tie going to the even significand.
  Results beyond the largest double (infinities) and \<^verbatim>\<open>NaN\<close> are not embedded; stats
  and scores stay far below.
\<close>

definition binade :: "real \<Rightarrow> int" where
  \<comment> \<open>The exponent \<open>e\<close> with \<open>2^e \<le> |x| < 2^(e+1)\<close>, for \<open>x \<noteq> 0\<close>.\<close>
  "binade x = \<lfloor>log 2 \<bar>x\<bar>\<rfloor>"

definition quantum :: "real \<Rightarrow> real" where
  \<comment> \<open>The distance between neighbouring doubles around \<open>x\<close>: 53 significant bits,
      and \<open>2^-1074\<close> among the subnormal numbers.\<close>
  "quantum x = 2 powr real_of_int (max (binade x - 52) (- 1074))"

definition roundTiesToEven :: "real \<Rightarrow> int" where
  "roundTiesToEven y =
     (let f = \<lfloor>y\<rfloor>; r = y - real_of_int f
      in if r < 1 / 2 then f else if r > 1 / 2 then f + 1 else if even f then f else f + 1)"

definition toDouble :: "real \<Rightarrow> real" where
  \<comment> \<open>The double nearest to \<open>x\<close>.\<close>
  "toDouble x = (if x = 0 then 0 else real_of_int (roundTiesToEven (x / quantum x)) * quantum x)"

definition addD :: "real \<Rightarrow> real \<Rightarrow> real" where
  \<comment> \<open>\<^verbatim>\<open>a + b\<close> on doubles\<close>
  "addD a b = toDouble (a + b)"

definition mulD :: "real \<Rightarrow> real \<Rightarrow> real" where
  \<comment> \<open>\<^verbatim>\<open>a * b\<close> on doubles\<close>
  "mulD a b = toDouble (a * b)"

definition divD :: "real \<Rightarrow> real \<Rightarrow> real" where
  \<comment> \<open>\<^verbatim>\<open>a / b\<close> on doubles\<close>
  "divD a b = toDouble (a / b)"

section \<open>The stat vector (\<^verbatim>\<open>PetStats\<close>)\<close>

record PetStats =
  hunger :: real
  happiness :: real
  hygiene :: real
  energy :: real
  thirst :: real

definition statsInRange :: "PetStats \<Rightarrow> bool" where
  "statsInRange s =
     (0 \<le> hunger s \<and> hunger s \<le> 100 \<and> 0 \<le> happiness s \<and> happiness s \<le> 100 \<and>
      0 \<le> hygiene s \<and> hygiene s \<le> 100 \<and> 0 \<le> energy s \<and> energy s \<le> 100 \<and>
      0 \<le> thirst s \<and> thirst s \<le> 100)"

section \<open>Report grading (\<^verbatim>\<open>src/src/lib/reportLogic.ts\<close>)\<close>

record ActionCounts =
  cnt_feed :: nat
  cnt_water :: nat
  cnt_walk :: nat
  cnt_play :: nat
  cnt_bath :: nat
  cnt_vet :: nat
  cnt_groom :: nat

definition toLowerCase :: "string \<Rightarrow> string" where
  \<comment> \<open>On the ASCII letters, which is all the keywords below need.\<close>
  "toLowerCase s =
     map (\<lambda>c. let n = (of_char c :: nat) in if 65 \<le> n \<and> n \<le> 90 then char_of (n + 32) else c) s"

fun includes_str :: "string \<Rightarrow> string \<Rightarrow> bool" where
  "includes_str [] k = (k = [])"
| "includes_str (c # cs) k = (take (length k) (c # cs) = k \<or> includes_str cs k)"

definition bump :: "bool \<Rightarrow> nat \<Rightarrow> nat" where
  \<comment> \<open>\<^verbatim>\<open>if (cond) counts.x++\<close>\<close>
  "bump cond n = (if cond then n + 1 else n)"

definition countMessage :: "string \<Rightarrow> ActionCounts \<Rightarrow> ActionCounts" where
  \<comment> \<open>The body of the loop of \<^verbatim>\<open>getActionCounts\<close>, for one event message.\<close>
  "countMessage msg counts =
     (let m = toLowerCase msg in
      \<lparr> cnt_feed = bump (includes_str m ''feeding'' \<or> includes_str m ''feed'') (cnt_feed counts),
        cnt_water = bump (includes_str m ''water'' \<or> includes_str m ''giving water'') (cnt_water counts),
        cnt_walk = bump (includes_str m ''walk'' \<or> includes_str m ''run'' \<or> includes_str m ''fly''
                         \<or> includes_str m ''exercise'') (cnt_walk counts),
        cnt_play = bump (includes_str m ''play'' \<or> includes_str m ''playing'') (cnt_play counts),
        cnt_bath = bump (includes_str m ''bath'' \<or> includes_str m ''shower''
                         \<or> includes_str m ''spot clean'') (cnt_bath counts),
        cnt_vet = bump (includes_str m ''vet'' \<or> includes_str m ''checkup'') (cnt_vet counts),
        cnt_groom = bump (includes_str m ''trim'' \<or> includes_str m ''brush'' \<or> includes_str m ''groom''
                          \<or> includes_str m ''nail'' \<or> includes_str m ''beak'') (cnt_groom counts) \<rparr>)"

definition getActionCounts :: "string list \<Rightarrow> ActionCounts" where
  \<comment> \<open>The events are read for their messages only.\<close>
  "getActionCounts msgs =
     foldl (\<lambda>counts msg. countMessage msg counts)
       \<lparr> cnt_feed = 0, cnt_water = 0, cnt_walk = 0, cnt_play = 0, cnt_bath = 0, cnt_vet = 0,
         cnt_groom = 0 \<rparr> msgs"

definition getGrade :: "real \<Rightarrow> string" where
  "getGrade score =
     (if score \<ge> 97 then ''A+''
      else if score \<ge> 93 then ''A''
      else if score \<ge> 90 then ''A-''
      else if score \<ge> 87 then ''B+''
      else if score \<ge> 83 then ''B''
      else if score \<ge> 80 then ''B-''
      else if score \<ge> 77 then ''C+''
      else if score \<ge> 73 then ''C''
      else if score \<ge> 70 then ''C-''
      else if score \<ge> 67 then ''D+''
      else if score \<ge> 63 then ''D''
      else if score \<ge> 60 then ''D-''
      else ''F'')"

definition avgStat :: "PetStats \<Rightarrow> real" where
  \<comment> \<open>\<^verbatim>\<open>const avgStat\<close> of \<^verbatim>\<open>getOverallScore\<close>: the sum is taken from the left, each
      step in double arithmetic.\<close>
  "avgStat stats =
     divD (addD (addD (addD (addD (hunger stats) (thirst stats)) (happiness stats))
                  (hygiene stats)) (energy stats)) 5"

definition getOverallScore :: "PetStats \<Rightarrow> ActionCounts \<Rightarrow> int" where
  \<comment> \<open>The stats are doubles; \<^verbatim>\<open>Math.round\<close> sees the double the sum comes to.\<close>
  "getOverallScore stats counts =
     (let variety = length (filter (\<lambda>c. c > 0)
                      [cnt_feed counts, cnt_water counts, cnt_walk counts, cnt_play counts,
                       cnt_bath counts, cnt_groom counts]);
          varietyBonus = min 10 (mulD (real variety) 2)
      in round_js (min 100 (addD (avgStat stats) varietyBonus)))"

subsection \<open>The specification's reading of the score and of the grade order\<close>

definition distinctKindsUsed :: "ActionCounts \<Rightarrow> nat" where
  \<comment> \<open>The specification's words: the number of distinct action kinds, of the seven the
      report counts, whose count is positive.\<close>
  "distinctKindsUsed counts =
     length (filter (\<lambda>c. c > 0)
       [cnt_feed counts, cnt_water counts, cnt_walk counts, cnt_play counts, cnt_bath counts,
        cnt_vet counts, cnt_groom counts])"

definition specScore :: "PetStats \<Rightarrow> ActionCounts \<Rightarrow> real" where
  \<comment> \<open>The specification's words: the average of the five stats plus the variety bonus
      \<open>min(10, 2 \<times> kinds used)\<close>, capped at 100.\<close>
  "specScore stats counts =
     min 100 ((hunger stats + thirst stats + happiness stats + hygiene stats + energy stats) / 5
              + min 10 (2 * real (distinctKindsUsed counts)))"

definition careKindsUsed :: "ActionCounts \<Rightarrow> nat" where
  \<comment> \<open>The kinds the code's variety bonus looks at: all but the vet visit.\<close>
  "careKindsUsed counts =
     (if cnt_feed counts > 0 then 1 else 0) + (if cnt_water counts > 0 then 1 else 0) +
     (if cnt_walk counts > 0 then 1 else 0) + (if cnt_play counts > 0 then 1 else 0) +
     (if cnt_bath counts > 0 then 1 else 0) + (if cnt_groom counts > 0 then 1 else 0)"

definition gradeRank :: "string \<Rightarrow> nat" where
  \<comment> \<open>The position of a letter grade in the threshold table, the worst first.\<close>
  "gradeRank g =
     (if g = ''A+'' then 12 else if g = ''A'' then 11 else if g = ''A-'' then 10
      else if g = ''B+'' then 9 else if g = ''B'' then 8 else if g = ''B-'' then 7
      else if g = ''C+'' then 6 else if g = ''C'' then 5 else if g = ''C-'' then 4
      else if g = ''D+'' then 3 else if g = ''D'' then 2 else if g = ''D-'' then 1
      else 0)"

section \<open>Pet profiles (\<^verbatim>\<open>@/lib/petConfig\<close>, the second part of \<^verbatim>\<open>src/src/lib/reportLogic.ts\<close>)\<close>

text \<open>
  One record per object shape of \<^verbatim>\<open>PetConfig\<close>. A field marked optional in the
  interface (\<^verbatim>\<open>happiness?: number\<close>) is an \<^typ>\<open>real option\<close>. The display
  name and the icon of a profile are left out.
\<close>

record DecayRates =
  decay_hunger :: real
  decay_happiness :: real
  decay_hygiene :: real
  decay_energy :: real
  decay_thirst :: real

record SleepHours =
  sleep_start :: int
  sleep_end :: int

record FeedChanges =
  feed_hunger :: real
  feed_happiness :: "real option"
  feed_energy :: "real option"

record FeedAction =
  feed_cost :: int
  feed_duration :: int
  feed_statChanges :: FeedChanges
  feed_triggerThreshold :: real

record WaterChanges =
  water_thirst :: real
  water_happiness :: "real option"

record WaterAction =
  water_cost :: int
  water_duration :: int
  water_statChanges :: WaterChanges
  water_triggerThreshold :: real

record ExerciseChanges =
  exercise_energy :: real
  exercise_happiness :: real
  exercise_hygiene :: "real option"
  exercise_thirst :: real
  exercise_hunger :: real

record ExerciseAction =
  exercise_cost :: int
  exercise_duration :: int
  exercise_statChanges :: ExerciseChanges
  exercise_minEnergy :: real
  exercise_cooldownHours :: real

record PlayChanges =
  play_happiness :: real
  play_energy :: real
  play_hygiene :: "real option"
  play_thirst :: real
  play_hunger :: real

record PlayAction =
  play_cost :: int
  play_duration :: int
  play_statChanges :: PlayChanges
  play_requiresToy :: bool
  play_minEnergy :: real

record BathChanges =
  bath_hygiene :: real
  bath_happiness :: "real option"

record BathAction =
  bath_cost :: int
  bath_duration :: int
  bath_statChanges :: BathChanges
  bath_triggerThreshold :: real
  bath_cooldownDays :: real

record GroomingChanges =
  grooming_hygiene :: real
  grooming_happiness :: "real option"

record GroomingAction =
  grooming_cost :: int
  grooming_duration :: int
  grooming_statChanges :: GroomingChanges
  grooming_triggerThreshold :: real
  grooming_cooldownDays :: real

record VetChanges =
  vet_hygiene :: real
  vet_happiness :: real
  vet_energy :: real

record VetAction =
  vet_cost :: int
  vet_duration :: int
  vet_statChanges :: VetChanges

record Actions =
  feed :: FeedAction
  water :: WaterAction
  exercise :: ExerciseAction
  play :: PlayAction
  bath :: BathAction
  grooming :: GroomingAction
  vetVisit :: VetAction

record PetConfig =
  ptype :: string
  decayRates :: DecayRates
  sleepHours :: SleepHours
  initialStats :: PetStats
  actions :: Actions

definition dogConfig :: PetConfig where
  "dogConfig =
     \<lparr> ptype = ''dog'',
       decayRates = \<lparr> decay_hunger = 6.75, decay_happiness = 45, decay_hygiene = 120,
                      decay_energy = 10, decay_thirst = 3.5 \<rparr>,
       sleepHours = \<lparr> sleep_start = 22, sleep_end = 6 \<rparr>,
       initialStats = \<lparr> hunger = 80, happiness = 80, hygiene = 90, energy = 80, thirst = 80 \<rparr>,
       actions =
         \<lparr> feed = \<lparr> feed_cost = 0, feed_duration = 5,
                    feed_statChanges = \<lparr> feed_hunger = 90, feed_happiness = Some 5,
                                         feed_energy = Some 12 \<rparr>,
                    feed_triggerThreshold = 35 \<rparr>,
           water = \<lparr> water_cost = 0, water_duration = 5,
                     water_statChanges = \<lparr> water_thirst = 80, water_happiness = Some 3 \<rparr>,
                     water_triggerThreshold = 70 \<rparr>,
           exercise = \<lparr> exercise_cost = 0, exercise_duration = 5,
                        exercise_statChanges =
                          \<lparr> exercise_energy = - 20, exercise_happiness = 15,
                            exercise_hygiene = Some (- 7), exercise_thirst = - 35,
                            exercise_hunger = - 8 \<rparr>,
                        exercise_minEnergy = 20, exercise_cooldownHours = 12 \<rparr>,
           play = \<lparr> play_cost = 0, play_duration = 5,
                    play_statChanges =
                      \<lparr> play_happiness = 15, play_energy = - 20, play_hygiene = Some (- 3),
                        play_thirst = - 30, play_hunger = - 6 \<rparr>,
                    play_requiresToy = True, play_minEnergy = 20 \<rparr>,
           bath = \<lparr> bath_cost = 2, bath_duration = 35 * 60,
                    bath_statChanges = \<lparr> bath_hygiene = 100, bath_happiness = Some (- 5) \<rparr>,
                    bath_triggerThreshold = 35, bath_cooldownDays = 14 \<rparr>,
           grooming = \<lparr> grooming_cost = 10, grooming_duration = 30 * 60,
                        grooming_statChanges =
                          \<lparr> grooming_hygiene = 15, grooming_happiness = Some (- 3) \<rparr>,
                        grooming_triggerThreshold = 35, grooming_cooldownDays = 30 \<rparr>,
           vetVisit = \<lparr> vet_cost = 100, vet_duration = 45 * 60,
                        vet_statChanges = \<lparr> vet_hygiene = 30, vet_happiness = 10,
                                            vet_energy = 20 \<rparr> \<rparr> \<rparr> \<rparr>"

definition catConfig :: PetConfig where
  "catConfig =
     \<lparr> ptype = ''cat'',
       decayRates = \<lparr> decay_hunger = 8, decay_happiness = 50, decay_hygiene = 180,
                      decay_energy = 12, decay_thirst = 4 \<rparr>,
       sleepHours = \<lparr> sleep_start = 20, sleep_end = 6 \<rparr>,
       initialStats = \<lparr> hunger = 75, happiness = 75, hygiene = 95, energy = 70, thirst = 75 \<rparr>,
       actions =
         \<lparr> feed = \<lparr> feed_cost = 2, feed_duration = 5,
                    feed_statChanges = \<lparr> feed_hunger = 85, feed_happiness = Some 3,
                                         feed_energy = Some 10 \<rparr>,
                    feed_triggerThreshold = 40 \<rparr>,
           water = \<lparr> water_cost = 0, water_duration = 5,
                     water_statChanges = \<lparr> water_thirst = 75, water_happiness = Some 2 \<rparr>,
                     water_triggerThreshold = 70 \<rparr>,
           exercise = \<lparr> exercise_cost = 0, exercise_duration = 5,
                        exercise_statChanges =
                          \<lparr> exercise_energy = - 15, exercise_happiness = 20,
                            exercise_hygiene = Some (- 2), exercise_thirst = - 30,
                            exercise_hunger = - 7 \<rparr>,
                        exercise_minEnergy = 15, exercise_cooldownHours = 8 \<rparr>,
           play = \<lparr> play_cost = 0, play_duration = 5,
                    play_statChanges =
                      \<lparr> play_happiness = 20, play_energy = - 15, play_hygiene = Some (- 2),
                        play_thirst = - 25, play_hunger = - 5 \<rparr>,
                    play_requiresToy = True, play_minEnergy = 15 \<rparr>,
           bath = \<lparr> bath_cost = 3, bath_duration = 40 * 60,
                    bath_statChanges = \<lparr> bath_hygiene = 100, bath_happiness = Some (- 10) \<rparr>,
                    bath_triggerThreshold = 30, bath_cooldownDays = 21 \<rparr>,
           grooming = \<lparr> grooming_cost = 5, grooming_duration = 20 * 60,
                        grooming_statChanges =
                          \<lparr> grooming_hygiene = 20, grooming_happiness = Some 5 \<rparr>,
                        grooming_triggerThreshold = 40, grooming_cooldownDays = 7 \<rparr>,
           vetVisit = \<lparr> vet_cost = 120, vet_duration = 45 * 60,
                        vet_statChanges = \<lparr> vet_hygiene = 25, vet_happiness = 5,
                                            vet_energy = 15 \<rparr> \<rparr> \<rparr> \<rparr>"

definition parrotConfig :: PetConfig where
  "parrotConfig =
     \<lparr> ptype = ''parrot'',
       decayRates = \<lparr> decay_hunger = 5, decay_happiness = 30, decay_hygiene = 200,
                      decay_energy = 8, decay_thirst = 3 \<rparr>,
       sleepHours = \<lparr> sleep_start = 20, sleep_end = 7 \<rparr>,
       initialStats = \<lparr> hunger = 70, happiness = 70, hygiene = 85, energy = 75, thirst = 70 \<rparr>,
       actions =
         \<lparr> feed = \<lparr> feed_cost = 4, feed_duration = 5,
                    feed_statChanges = \<lparr> feed_hunger = 80, feed_happiness = Some 8,
                                         feed_energy = Some 15 \<rparr>,
                    feed_triggerThreshold = 30 \<rparr>,
           water = \<lparr> water_cost = 0, water_duration = 5,
                     water_statChanges = \<lparr> water_thirst = 75, water_happiness = Some 2 \<rparr>,
                     water_triggerThreshold = 65 \<rparr>,
           exercise = \<lparr> exercise_cost = 0, exercise_duration = 5,
                        exercise_statChanges =
                          \<lparr> exercise_energy = - 25, exercise_happiness = 25,
                            exercise_hygiene = Some (- 5), exercise_thirst = - 40,
                            exercise_hunger = - 10 \<rparr>,
                        exercise_minEnergy = 25, exercise_cooldownHours = 6 \<rparr>,
           play = \<lparr> play_cost = 0, play_duration = 5,
                    play_statChanges =
                      \<lparr> play_happiness = 25, play_energy = - 20, play_hygiene = Some (- 3),
                        play_thirst = - 35, play_hunger = - 8 \<rparr>,
                    play_requiresToy = True, play_minEnergy = 20 \<rparr>,
           bath = \<lparr> bath_cost = 1, bath_duration = 15 * 60,
                    bath_statChanges = \<lparr> bath_hygiene = 100, bath_happiness = Some 10 \<rparr>,
                    bath_triggerThreshold = 40, bath_cooldownDays = 3 \<rparr>,
           grooming = \<lparr> grooming_cost = 15, grooming_duration = 25 * 60,
                        grooming_statChanges =
                          \<lparr> grooming_hygiene = 20, grooming_happiness = Some (- 5) \<rparr>,
                        grooming_triggerThreshold = 40, grooming_cooldownDays = 60 \<rparr>,
           vetVisit = \<lparr> vet_cost = 150, vet_duration = 50 * 60,
                        vet_statChanges = \<lparr> vet_hygiene = 35, vet_happiness = 15,
                                            vet_energy = 25 \<rparr> \<rparr> \<rparr> \<rparr>"

definition rabbitConfig :: PetConfig where
  "rabbitConfig =
     \<lparr> ptype = ''rabbit'',
       decayRates = \<lparr> decay_hunger = 4, decay_happiness = 40, decay_hygiene = 150,
                      decay_energy = 9, decay_thirst = 3.5 \<rparr>,
       sleepHours = \<lparr> sleep_start = 22, sleep_end = 6 \<rparr>,
       initialStats = \<lparr> hunger = 85, happiness = 75, hygiene = 80, energy = 70, thirst = 80 \<rparr>,
       actions =
         \<lparr> feed = \<lparr> feed_cost = 2, feed_duration = 5,
                    feed_statChanges = \<lparr> feed_hunger = 75, feed_happiness = Some 5,
                                         feed_energy = Some 8 \<rparr>,
                    feed_triggerThreshold = 50 \<rparr>,
           water = \<lparr> water_cost = 0, water_duration = 5,
                     water_statChanges = \<lparr> water_thirst = 80, water_happiness = Some 2 \<rparr>,
                     water_triggerThreshold = 70 \<rparr>,
           exercise = \<lparr> exercise_cost = 0, exercise_duration = 5,
                        exercise_statChanges =
                          \<lparr> exercise_energy = - 18, exercise_happiness = 18,
                            exercise_hygiene = Some (- 8), exercise_thirst = - 32,
                            exercise_hunger = - 9 \<rparr>,
                        exercise_minEnergy = 18, exercise_cooldownHours = 10 \<rparr>,
           play = \<lparr> play_cost = 0, play_duration = 5,
                    play_statChanges =
                      \<lparr> play_happiness = 18, play_energy = - 18, play_hygiene = Some (- 4),
                        play_thirst = - 28, play_hunger = - 7 \<rparr>,
                    play_requiresToy = True, play_minEnergy = 18 \<rparr>,
           bath = \<lparr> bath_cost = 1, bath_duration = 20 * 60,
                    bath_statChanges = \<lparr> bath_hygiene = 90, bath_happiness = Some (- 8) \<rparr>,
                    bath_triggerThreshold = 40, bath_cooldownDays = 30 \<rparr>,
           grooming = \<lparr> grooming_cost = 8, grooming_duration = 25 * 60,
                        grooming_statChanges =
                          \<lparr> grooming_hygiene = 25, grooming_happiness = Some 3 \<rparr>,
                        grooming_triggerThreshold = 40, grooming_cooldownDays = 14 \<rparr>,
           vetVisit = \<lparr> vet_cost = 110, vet_duration = 40 * 60,
                        vet_statChanges = \<lparr> vet_hygiene = 30, vet_happiness = 8,
                                            vet_energy = 18 \<rparr> \<rparr> \<rparr> \<rparr>"

definition petConfigs :: "string \<Rightarrow> PetConfig option" where
  "petConfigs t =
     (if t = ''dog'' then Some dogConfig
      else if t = ''cat'' then Some catConfig
      else if t = ''parrot'' then Some parrotConfig
      else if t = ''rabbit'' then Some rabbitConfig
      else None)"

definition petConfigOf :: "string \<Rightarrow> PetConfig" where
  \<comment> \<open>\<^verbatim>\<open>petConfigs[pet.type as PetType] || petConfigs.dog\<close>\<close>
  "petConfigOf t = (case petConfigs t of Some c \<Rightarrow> c | None \<Rightarrow> dogConfig)"

section \<open>The care screen (\<^verbatim>\<open>Dashboard\<close>, the second part of \<^verbatim>\<open>src/unnamed/part_001\<close>)\<close>

subsection \<open>State\<close>

datatype Emotion = Happy | Sad | Okay | Grumpy | Neutral | Sleeping

record Pet =
  pet_type :: string
  pet_name :: string
  stats :: PetStats
  emotion :: Emotion

text \<open>
  An event message is a template string of the source filled with the pet's name, a label
  or an amount; the embedding keeps the template (one constructor each) and its arguments.
\<close>

datatype Message =
    Spent int string               \<comment> \<open>\<^verbatim>\<open>Spent $cost on action\<close>\<close>
  | Finished string                \<comment> \<open>\<^verbatim>\<open>Finished action\<close>\<close>
  | PurchasedEssentials int
  | WelcomeBack int                \<comment> \<open>\<^verbatim>\<open>Welcome back! N minutes have passed.\<close>\<close>
  | FellAsleep string
  | WokeUp string
  | WaitingForAttention string
  | IdleNote string nat            \<comment> \<open>one of the three idle messages\<close>
  | GoingOn string string          \<comment> \<open>\<^verbatim>\<open>name is going on a label\<close>\<close>
  | BackFrom string string
  | ExerciseNote string string nat \<comment> \<open>pet type, name, index into the type's three messages\<close>
  | IsPlaying string
  | GreatFun string                \<comment> \<open>\<^verbatim>\<open>name is having great fun! +10 Happiness\<close>\<close>
  | GotMessy string real
  | ToyBroke
  | SadWithoutToy string           \<comment> \<open>\<^verbatim>\<open>name is sad without a toy. -30 Happiness\<close>\<close>
  | BuyingToy string
  | GotNewToy
  | GettingBath string string
  | TakingToVet string
  | GotCheckup string
  | GroomingStart string string
  | GroomingDone string string

record EventEntry =
  message :: Message
  timestamp :: int

text \<open>\<^verbatim>\<open>Partial<typeof pet.stats>\<close>: the absolute values an action writes at its end.\<close>

record StatChanges =
  new_hunger :: "real option"
  new_happiness :: "real option"
  new_hygiene :: "real option"
  new_energy :: "real option"
  new_thirst :: "real option"

text \<open>
  The callbacks a handler leaves behind are data here. \<open>Effect\<close> is the \<^verbatim>\<open>extraEffects\<close>
  closure of an action; the play closure keeps the outcome of its toy-break draw and the
  value of \<^verbatim>\<open>hasToy\<close> in the render that created it. \<open>SubEvent\<close> is a pending
  \<^verbatim>\<open>setTimeout\<close> of \<^verbatim>\<open>eventTimers\<close>. \<open>Countdown\<close> is what the one-second interval of
  \<^verbatim>\<open>handleAction\<close> closes over.
\<close>

datatype Effect =
    NoEffect
  | FeedEffect
  | ExerciseEffect
  | PlayEffect bool bool    \<comment> \<open>\<^verbatim>\<open>toyBreaks\<close>, and \<^verbatim>\<open>hasToy\<close> as the click saw it\<close>
  | BuyToyEffect
  | BathEffect
  | VetEffect
  | GroomingEffect

datatype SubEvent =
    HappinessBonus real Message
  | HygieneLoss real Message

record Countdown =
  cd_action :: string
  cd_statChanges :: StatChanges
  cd_effect :: Effect

text \<open>
  The state of the component. Left out: the dialog flags, the countdown texts of the
  tiles other than the walk's (they only label a disabled tile), \<^verbatim>\<open>initialPurchases\<close>
  (written, never read) and the stat history (an input of the report only). The walk
  countdown keeps the hours left instead of their text.
\<close>

record Dashboard =
  pet :: Pet
  totalSpent :: int
  events :: "EventEntry list"
  activeAction :: "string option"
  actionTimer :: int
  isSleeping :: bool
  lastRestTime :: int
  walkCountdown :: "real option"
  hasToy :: bool
  lastWalkTime :: int
  lastBathTime :: int
  lastTrimNailsTime :: int
  feedCount :: nat
  interval :: "Countdown option"
  eventTimers :: "SubEvent list"
  penaltyTimers :: "bool list"   \<comment> \<open>per pending one-hour timeout: \<^verbatim>\<open>hasToy\<close> as its closure holds it\<close>

definition initDashboard :: "Pet \<Rightarrow> int \<Rightarrow> Dashboard" where
  \<comment> \<open>The \<^verbatim>\<open>useState\<close> defaults; \<open>now\<close> is \<^verbatim>\<open>Date.now()\<close> at the first render.\<close>
  "initDashboard initialPet now =
     \<lparr> pet = initialPet, totalSpent = 0, events = [], activeAction = None, actionTimer = 0,
       isSleeping = False, lastRestTime = now, walkCountdown = None, hasToy = False,
       lastWalkTime = 0, lastBathTime = 0, lastTrimNailsTime = 0, feedCount = 0,
       interval = None, eventTimers = [], penaltyTimers = [] \<rparr>"

definition busy :: "Dashboard \<Rightarrow> bool" where
  \<comment> \<open>\<^verbatim>\<open>!!activeAction\<close>: a non-empty action label is set.\<close>
  "busy st = (case activeAction st of None \<Rightarrow> False | Some a \<Rightarrow> a \<noteq> [])"

definition addEvent :: "Message \<Rightarrow> int \<Rightarrow> Dashboard \<Rightarrow> Dashboard" where
  "addEvent msg now st =
     st\<lparr>events := take 20 (\<lparr>message = msg, timestamp = now\<rparr> # events st)\<rparr>"

definition updateEmotion :: "PetStats \<Rightarrow> bool \<Rightarrow> Emotion" where
  "updateEmotion s sleeping_now =
     (if sleeping_now then Sleeping
      else if happiness s \<ge> 80 then Happy
      else if happiness s \<ge> 50 then Okay
      else if happiness s \<ge> 20 then Sad
      else Grumpy)"

definition setStats :: "(PetStats \<Rightarrow> PetStats) \<Rightarrow> Dashboard \<Rightarrow> Dashboard" where
  \<comment> \<open>\<^verbatim>\<open>setPet(p => ({ ...p, stats: f(p.stats) }))\<close>, the mood untouched.\<close>
  "setStats f st = st\<lparr>pet := (pet st)\<lparr>stats := f (stats (pet st))\<rparr>\<rparr>"

definition setStatsEmotion :: "(PetStats \<Rightarrow> PetStats) \<Rightarrow> bool \<Rightarrow> Dashboard \<Rightarrow> Dashboard" where
  \<comment> \<open>\<^verbatim>\<open>setPet(p => ({ ...p, stats: newStats, emotion: updateEmotion(newStats, sleeping) }))\<close>\<close>
  "setStatsEmotion f sleeping_now st =
     (let newStats = f (stats (pet st))
      in st\<lparr>pet := (pet st)\<lparr>stats := newStats, emotion := updateEmotion newStats sleeping_now\<rparr>\<rparr>)"

subsection \<open>The sleep cycle\<close>

definition shouldBeSleeping :: "PetConfig \<Rightarrow> int \<Rightarrow> bool" where
  "shouldBeSleeping cfg currentHour =
     (let start = sleep_start (sleepHours cfg); end_h = sleep_end (sleepHours cfg)
      in if start > end_h then (currentHour \<ge> start \<or> currentHour < end_h)
         else (currentHour \<ge> start \<and> currentHour < end_h))"

definition checkSleepCycle :: "PetConfig \<Rightarrow> int \<Rightarrow> int \<Rightarrow> Dashboard \<Rightarrow> Dashboard" where
  "checkSleepCycle cfg currentHour now st =
     (if shouldBeSleeping cfg currentHour \<and> \<not> isSleeping st then
        addEvent (FellAsleep (pet_name (pet st))) now (st\<lparr>isSleeping := True\<rparr>)
      else if \<not> shouldBeSleeping cfg currentHour \<and> isSleeping st then
        addEvent (WokeUp (pet_name (pet st))) now (st\<lparr>isSleeping := False\<rparr>)
      else st)"

subsection \<open>The decay clock\<close>

definition isDaytime :: "PetConfig \<Rightarrow> int \<Rightarrow> int \<Rightarrow> bool" where
  "isDaytime cfg currentHour currentMinute =
     (let totalMinutesFromMidnight = currentHour * 60 + currentMinute;
          sleepStartMinutes = sleep_start (sleepHours cfg) * 60;
          sleepEndMinutes = sleep_end (sleepHours cfg) * 60
      in if sleep_start (sleepHours cfg) > sleep_end (sleepHours cfg)
         then (totalMinutesFromMidnight < sleepStartMinutes \<and>
               totalMinutesFromMidnight \<ge> sleepEndMinutes)
         else (totalMinutesFromMidnight \<ge> sleepEndMinutes \<and>
               totalMinutesFromMidnight < sleepStartMinutes))"

definition awakeStats :: "PetConfig \<Rightarrow> bool \<Rightarrow> real \<Rightarrow> PetStats \<Rightarrow> PetStats" where
  \<comment> \<open>\<^verbatim>\<open>newStats\<close> of the awake branch; \<open>daytime\<close> and \<open>minutesSinceRest\<close> as the
      tick computed them.\<close>
  "awakeStats cfg daytime minutesSinceRest s =
     (let hungerMultiplier = (if hunger s < 25 then 1.5 else 1);
          hygieneMultiplier = (if hygiene s < 40 then 1.5 else 1);
          decay = decayRates cfg;
          energyChange = (if daytime then - (1 / decay_energy decay) * 0.5
                          else min 2 (minutesSinceRest / 10))
      in s\<lparr> hunger := max 0 (hunger s - (1 / decay_hunger decay) * 0.5),
            happiness := max 0 (happiness s -
                           ((1 / decay_happiness decay) * 0.5 * hungerMultiplier * hygieneMultiplier)),
            hygiene := max 0 (hygiene s - (1 / (decay_hygiene decay * 2)) * 0.5),
            energy := min 100 (max 0 (energy s + energyChange)),
            thirst := max 0 (thirst s - (1 / decay_thirst decay) * 0.5) \<rparr>)"

definition asleepStats :: "PetConfig \<Rightarrow> PetStats \<Rightarrow> PetStats" where
  \<comment> \<open>\<^verbatim>\<open>newStats\<close> of the asleep branch.\<close>
  "asleepStats cfg s =
     (let start = sleep_start (sleepHours cfg); end_h = sleep_end (sleepHours cfg);
          sleepDuration = (if start > end_h then 24 - start + end_h else end_h - start);
          totalSleepMinutes = real_of_int (sleepDuration * 60);
          hungerAtSleep = hunger s;
          targetHungerByMorning = 20;
          hungerDecayRate = max 0 ((hungerAtSleep - targetHungerByMorning) / totalSleepMinutes);
          decay = decayRates cfg
      in s\<lparr> hunger := max 20 (hunger s - (hungerDecayRate * 0.5)),
            happiness := max 0 (happiness s - ((1 / decay_happiness decay) * 0.5 * 0.3)),
            hygiene := max 0 (hygiene s - ((1 / (decay_hygiene decay * 2)) * 0.5 * 0.5)),
            energy := min 100 (energy s + 0.8),
            thirst := max 15 (thirst s - ((thirst s - 15) / totalSleepMinutes * 0.5)) \<rparr>)"

definition decayTick :: "PetConfig \<Rightarrow> int \<Rightarrow> int \<Rightarrow> int \<Rightarrow> Dashboard \<Rightarrow> Dashboard" where
  \<comment> \<open>The 30-second callback; \<open>now\<close> is \<^verbatim>\<open>Date.now()\<close>, in milliseconds.\<close>
  "decayTick cfg currentHour currentMinute now st =
     (if \<not> busy st \<and> \<not> isSleeping st then
        (let timeSinceLastRest = now - lastRestTime st;
             minutesSinceRest = real_of_int timeSinceLastRest / (1000 * 60)
         in (setStatsEmotion
               (awakeStats cfg (isDaytime cfg currentHour currentMinute) minutesSinceRest)
               (isSleeping st) st)\<lparr>lastRestTime := now\<rparr>)
      else if isSleeping st then setStatsEmotion (asleepStats cfg) True st
      else st)"

definition idleEvent :: "real \<Rightarrow> real \<Rightarrow> int \<Rightarrow> Dashboard \<Rightarrow> Dashboard" where
  \<comment> \<open>The two-minute callback, which runs only while awake and idle; \<open>rand\<close> and
      \<open>rand2\<close> are its two \<^verbatim>\<open>Math.random()\<close> draws.\<close>
  "idleEvent rand rand2 now st =
     (if isSleeping st \<or> busy st then st
      else if rand < 0.02 then
        (if happiness (stats (pet st)) < 50
         then addEvent (WaitingForAttention (pet_name (pet st))) now st
         else addEvent (IdleNote (pet_name (pet st)) (nat \<lfloor>rand2 * 3\<rfloor>)) now st)
      else st)"

subsection \<open>Timed actions (\<^verbatim>\<open>handleAction\<close>)\<close>

definition applyChanges :: "StatChanges \<Rightarrow> PetStats \<Rightarrow> PetStats" where
  \<comment> \<open>\<^verbatim>\<open>{ ...currentPet.stats, ...statChanges }\<close>\<close>
  "applyChanges c s =
     \<lparr> hunger = (case new_hunger c of None \<Rightarrow> hunger s | Some v \<Rightarrow> v),
       happiness = (case new_happiness c of None \<Rightarrow> happiness s | Some v \<Rightarrow> v),
       hygiene = (case new_hygiene c of None \<Rightarrow> hygiene s | Some v \<Rightarrow> v),
       energy = (case new_energy c of None \<Rightarrow> energy s | Some v \<Rightarrow> v),
       thirst = (case new_thirst c of None \<Rightarrow> thirst s | Some v \<Rightarrow> v) \<rparr>"

text \<open>
  The state keeps one countdown. \<^verbatim>\<open>handleAction\<close> is called from the tiles only, a
  tile is disabled while an action label is set, and a label is set exactly while a
  countdown runs (\<open>reachable_oneRun\<close> below): no second interval is ever started beside
  a running one.
\<close>

definition handleAction ::
  "string \<Rightarrow> int \<Rightarrow> int \<Rightarrow> StatChanges \<Rightarrow> Effect \<Rightarrow> int \<Rightarrow> Dashboard \<Rightarrow> Dashboard" where
  "handleAction action cost duration statChanges extraEffects now st =
     (let st1 = st\<lparr>activeAction := Some action, actionTimer := duration,
                   totalSpent := totalSpent st + cost\<rparr>;
          st2 = (if cost > 0 then addEvent (Spent cost (toLowerCase action)) now st1 else st1)
      in st2\<lparr>interval := Some \<lparr>cd_action = action, cd_statChanges = statChanges,
                                cd_effect = extraEffects\<rparr>\<rparr>)"

definition exerciseLabel :: "string \<Rightarrow> string" where
  \<comment> \<open>\<^verbatim>\<open>actionLabels[pet.type] || "exercise"\<close>\<close>
  "exerciseLabel t =
     (if t = ''dog'' then ''walk'' else if t = ''cat'' then ''play session''
      else if t = ''parrot'' then ''flight'' else if t = ''rabbit'' then ''run''
      else ''exercise'')"

definition groomingFinishLabel :: "string \<Rightarrow> string" where
  "groomingFinishLabel t =
     (if t = ''parrot'' then ''beak and claws are trimmed''
      else if t = ''cat'' then ''is brushed''
      else if t = ''rabbit'' then ''is brushed''
      else ''nails are trimmed'')"

fun runEffect :: "Effect \<Rightarrow> int \<Rightarrow> Dashboard \<Rightarrow> Dashboard" where
  "runEffect NoEffect now st = st"
| "runEffect FeedEffect now st = st\<lparr>feedCount := feedCount st + 1\<rparr>"
| "runEffect ExerciseEffect now st =
     addEvent (BackFrom (pet_name (pet st)) (exerciseLabel (pet_type (pet st)))) now
       (st\<lparr>eventTimers := [], lastWalkTime := now\<rparr>)"
| "runEffect (PlayEffect toyBreaks hasToy_then) now st =
     (let st1 = st\<lparr>eventTimers := []\<rparr>
      in if toyBreaks
         then (addEvent ToyBroke now (st1\<lparr>hasToy := False\<rparr>))
                \<lparr>penaltyTimers := penaltyTimers st1 @ [hasToy_then]\<rparr>
         else st1)"
| "runEffect BuyToyEffect now st = addEvent GotNewToy now (st\<lparr>hasToy := True\<rparr>)"
| "runEffect BathEffect now st = st\<lparr>lastBathTime := now\<rparr>"
| "runEffect VetEffect now st = addEvent (GotCheckup (pet_name (pet st))) now st"
| "runEffect GroomingEffect now st =
     addEvent (GroomingDone (pet_name (pet st)) (groomingFinishLabel (pet_type (pet st)))) now
       (st\<lparr>lastTrimNailsTime := now\<rparr>)"

definition complete :: "Countdown \<Rightarrow> int \<Rightarrow> Dashboard \<Rightarrow> Dashboard" where
  \<comment> \<open>The interval callback once the timer has run down.\<close>
  "complete cd now st =
     (let st1 = st\<lparr>interval := None, activeAction := None\<rparr>;
          st2 = setStatsEmotion (applyChanges (cd_statChanges cd)) False st1;
          st3 = runEffect (cd_effect cd) now st2;
          st4 = addEvent (Finished (toLowerCase (cd_action cd))) now st3
      in st4\<lparr>actionTimer := 0\<rparr>)"

definition countdownTick :: "int \<Rightarrow> Dashboard \<Rightarrow> Dashboard" where
  \<comment> \<open>The one-second callback of a running action.\<close>
  "countdownTick now st =
     (case interval st of
        None \<Rightarrow> st
      | Some cd \<Rightarrow>
          if actionTimer st \<le> 1 then complete cd now st
          else st\<lparr>actionTimer := actionTimer st - 1\<rparr>)"

subsection \<open>Delayed callbacks\<close>

definition fireEventTimer :: "nat \<Rightarrow> int \<Rightarrow> Dashboard \<Rightarrow> Dashboard" where
  \<comment> \<open>The \<open>i\<close>-th pending timeout of \<^verbatim>\<open>eventTimers\<close> fires.\<close>
  "fireEventTimer i now st =
     (if i < length (eventTimers st) then
        (let st1 = st\<lparr>eventTimers := take i (eventTimers st) @ drop (Suc i) (eventTimers st)\<rparr>
         in case eventTimers st ! i of
              HappinessBonus amount msg \<Rightarrow>
                setStats (\<lambda>s. s\<lparr>happiness := min 100 (happiness s + amount)\<rparr>)
                  (addEvent msg now st1)
            | HygieneLoss amount msg \<Rightarrow>
                setStats (\<lambda>s. s\<lparr>hygiene := max 0 (hygiene s - amount)\<rparr>)
                  (addEvent msg now st1))
      else st)"

definition firePenaltyTimer :: "nat \<Rightarrow> int \<Rightarrow> Dashboard \<Rightarrow> Dashboard" where
  \<comment> \<open>The \<open>i\<close>-th pending one-hour timeout of a broken toy fires. Its test reads
      \<^verbatim>\<open>hasToy\<close> of the closure, not of the state.\<close>
  "firePenaltyTimer i now st =
     (if i < length (penaltyTimers st) then
        (let hasToy_then = penaltyTimers st ! i;
             st1 = st\<lparr>penaltyTimers := take i (penaltyTimers st) @ drop (Suc i) (penaltyTimers st)\<rparr>
         in if \<not> hasToy_then
            then addEvent (SadWithoutToy (pet_name (pet st))) now
                   (setStats (\<lambda>s. s\<lparr>happiness := max 0 (happiness s - 30)\<rparr>) st1)
            else st1)
      else st)"

subsection \<open>The action tiles\<close>

datatype ActionKind = Feed | Water | Exercise | Play | BuyToy | Bath | VetVisit | Grooming

fun disabled :: "PetConfig \<Rightarrow> ActionKind \<Rightarrow> Dashboard \<Rightarrow> bool" where
  "disabled cfg Feed st =
     (busy st \<or> isSleeping st \<or>
      hunger (stats (pet st)) \<ge> feed_triggerThreshold (feed (actions cfg)))"
| "disabled cfg Water st =
     (busy st \<or> isSleeping st \<or>
      thirst (stats (pet st)) \<ge> water_triggerThreshold (water (actions cfg)))"
| "disabled cfg Exercise st =
     (busy st \<or> isSleeping st \<or>
      energy (stats (pet st)) < exercise_minEnergy (exercise (actions cfg)) \<or>
      (lastWalkTime st > 0 \<and> walkCountdown st \<noteq> None))"
| "disabled cfg Play st =
     (busy st \<or> isSleeping st \<or>
      energy (stats (pet st)) < play_minEnergy (play (actions cfg)) \<or>
      (play_requiresToy (play (actions cfg)) \<and> \<not> hasToy st))"
| "disabled cfg BuyToy st = (busy st \<or> isSleeping st \<or> hasToy st)"
| "disabled cfg Bath st =
     (busy st \<or> isSleeping st \<or>
      hygiene (stats (pet st)) \<ge> bath_triggerThreshold (bath (actions cfg)))"
| "disabled cfg VetVisit st = (busy st \<or> isSleeping st)"
| "disabled cfg Grooming st =
     (busy st \<or> isSleeping st \<or>
      hygiene (stats (pet st)) \<ge> grooming_triggerThreshold (grooming (actions cfg)))"

definition noChanges :: StatChanges where
  "noChanges = \<lparr> new_hunger = None, new_happiness = None, new_hygiene = None,
                  new_energy = None, new_thirst = None \<rparr>"

definition feedCost :: "PetConfig \<Rightarrow> Dashboard \<Rightarrow> int" where
  "feedCost cfg st =
     (if pet_type (pet st) = ''dog'' then (if feedCount st \<ge> 120 then 25 else 0)
      else feed_cost (feed (actions cfg)))"

definition feedDuration :: "PetConfig \<Rightarrow> Dashboard \<Rightarrow> int" where
  "feedDuration cfg st =
     (if pet_type (pet st) = ''dog'' \<and> feedCount st \<ge> 120 then 5 + 60
      else feed_duration (feed (actions cfg)))"

definition feedClick :: "PetConfig \<Rightarrow> int \<Rightarrow> Dashboard \<Rightarrow> Dashboard" where
  "feedClick cfg now st =
     (let fd = feed (actions cfg);
          s = stats (pet st);
          isDogNeedsRestock = (pet_type (pet st) = ''dog'' \<and> feedCount st \<ge> 120);
          statChanges = noChanges
            \<lparr> new_hunger := Some (min 100 (hunger s + feed_hunger (feed_statChanges fd))),
              new_happiness :=
                (if truthy (feed_happiness (feed_statChanges fd))
                 then Some (min 100 (happiness s + num (feed_happiness (feed_statChanges fd))))
                 else None),
              new_energy :=
                (if truthy (feed_energy (feed_statChanges fd))
                 then Some (min 100 (energy s + num (feed_energy (feed_statChanges fd))))
                 else None) \<rparr>
      in handleAction (if isDogNeedsRestock then ''Getting food & Feeding'' else ''Feeding'')
           (feedCost cfg st) (feedDuration cfg st) statChanges
           (if pet_type (pet st) = ''dog'' then FeedEffect else NoEffect) now st)"

definition waterClick :: "PetConfig \<Rightarrow> int \<Rightarrow> Dashboard \<Rightarrow> Dashboard" where
  "waterClick cfg now st =
     (let w = water (actions cfg);
          s = stats (pet st);
          statChanges = noChanges
            \<lparr> new_thirst := Some (min 100 (thirst s + water_thirst (water_statChanges w))),
              new_happiness :=
                (if truthy (water_happiness (water_statChanges w))
                 then Some (min 100 (happiness s + num (water_happiness (water_statChanges w))))
                 else None) \<rparr>
      in handleAction ''Giving Water'' (water_cost w) (water_duration w) statChanges NoEffect now st)"

definition knownType :: "string \<Rightarrow> string" where
  \<comment> \<open>The key \<^verbatim>\<open>eventMessages[pet.type] || eventMessages.dog\<close> reads.\<close>
  "knownType t = (if t = ''cat'' \<or> t = ''parrot'' \<or> t = ''rabbit'' then t else ''dog'')"

definition exerciseClick :: "PetConfig \<Rightarrow> real \<Rightarrow> real \<Rightarrow> real \<Rightarrow> int \<Rightarrow> Dashboard \<Rightarrow> Dashboard" where
  \<comment> \<open>\<open>r1\<close>, \<open>r2\<close>, \<open>r3\<close>: the three \<^verbatim>\<open>Math.random()\<close> draws, in order.\<close>
  "exerciseClick cfg r1 r2 r3 now st =
     (let ex = exercise (actions cfg);
          ch = exercise_statChanges ex;
          s = stats (pet st);
          t = pet_type (pet st);
          name = pet_name (pet st);
          energyCost = \<bar>exercise_energy ch\<bar>;
          hygieneLoss = (if truthy (exercise_hygiene ch) then \<bar>num (exercise_hygiene ch)\<bar> else 0);
          happinessGain = exercise_happiness ch;
          thirstDecrease = (if exercise_thirst ch \<noteq> 0 then \<bar>exercise_thirst ch\<bar> else 0);
          hungerDecrease = (if exercise_hunger ch \<noteq> 0 then \<bar>exercise_hunger ch\<bar> else 0);
          st1 = addEvent (GoingOn name (exerciseLabel t)) now st;
          timers =
            (if r1 < 0.10 then [HappinessBonus 10 (ExerciseNote (knownType t) name 0)] else []) @
            (if r2 < 0.08 then [HappinessBonus 15 (ExerciseNote (knownType t) name 1)] else []) @
            (if r3 < 0.12
             then [HygieneLoss (if hygieneLoss \<noteq> 0 then hygieneLoss else 5)
                     (ExerciseNote (knownType t) name 2)]
             else []);
          statChanges = noChanges
            \<lparr> new_energy := Some (max 0 (energy s - energyCost)),
              new_happiness := Some (min 100 (happiness s + happinessGain)),
              new_hygiene := (if hygieneLoss > 0 then Some (max 0 (hygiene s - hygieneLoss)) else None),
              new_thirst := (if thirstDecrease > 0 then Some (max 0 (thirst s - thirstDecrease)) else None),
              new_hunger := (if hungerDecrease > 0 then Some (max 0 (hunger s - hungerDecrease)) else None) \<rparr>
      in handleAction
           (if t = ''dog'' then ''Walking'' else if t = ''cat'' then ''Playing''
            else if t = ''parrot'' then ''Flying'' else ''Running'')
           (exercise_cost ex) (exercise_duration ex) statChanges ExerciseEffect now
           (st1\<lparr>eventTimers := eventTimers st1 @ timers\<rparr>))"

definition playClick :: "PetConfig \<Rightarrow> real \<Rightarrow> real \<Rightarrow> real \<Rightarrow> int \<Rightarrow> Dashboard \<Rightarrow> Dashboard" where
  "playClick cfg r1 r2 r3 now st =
     (let pl = play (actions cfg);
          ch = play_statChanges pl;
          s = stats (pet st);
          name = pet_name (pet st);
          energyCost = \<bar>play_energy ch\<bar>;
          hygieneLoss = (if truthy (play_hygiene ch) then \<bar>num (play_hygiene ch)\<bar> else 0);
          thirstDecrease = (if play_thirst ch \<noteq> 0 then \<bar>play_thirst ch\<bar> else 0);
          hungerDecrease = (if play_hunger ch \<noteq> 0 then \<bar>play_hunger ch\<bar> else 0);
          st1 = addEvent (IsPlaying name) now st;
          timers =
            (if r1 < 0.10 then [HappinessBonus 10 (GreatFun name)] else []) @
            (if r2 < 0.08 \<and> hygieneLoss > 0 then [HygieneLoss hygieneLoss (GotMessy name hygieneLoss)]
             else []);
          toyBreaks = (r3 < 0.10 \<and> play_requiresToy pl);
          statChanges = noChanges
            \<lparr> new_happiness := Some (min 100 (happiness s + play_happiness ch)),
              new_energy := Some (max 0 (energy s - energyCost)),
              new_hygiene := (if hygieneLoss > 0 then Some (max 0 (hygiene s - hygieneLoss)) else None),
              new_thirst := (if thirstDecrease > 0 then Some (max 0 (thirst s - thirstDecrease)) else None),
              new_hunger := (if hungerDecrease > 0 then Some (max 0 (hunger s - hungerDecrease)) else None) \<rparr>
      in handleAction ''Playing'' (play_cost pl) (play_duration pl) statChanges
           (PlayEffect toyBreaks (hasToy st)) now
           (st1\<lparr>eventTimers := eventTimers st1 @ timers\<rparr>))"

definition buyToyClick :: "int \<Rightarrow> Dashboard \<Rightarrow> Dashboard" where
  "buyToyClick now st =
     handleAction ''Buying Toy'' 15 (5 * 60)
       (noChanges\<lparr>new_happiness := Some (min 100 (happiness (stats (pet st)) + 20))\<rparr>)
       BuyToyEffect now
       (addEvent (BuyingToy (pet_name (pet st))) now st)"

definition bathLabel :: "string \<Rightarrow> string" where
  "bathLabel t =
     (if t = ''parrot'' then ''Shower'' else if t = ''rabbit'' then ''Spot Clean'' else ''Bath'')"

definition bathClick :: "PetConfig \<Rightarrow> int \<Rightarrow> Dashboard \<Rightarrow> Dashboard" where
  "bathClick cfg now st =
     (let b = bath (actions cfg);
          s = stats (pet st);
          actionLabel = bathLabel (pet_type (pet st));
          statChanges = noChanges
            \<lparr> new_hygiene := Some (min 100 (hygiene s + bath_hygiene (bath_statChanges b))),
              new_happiness :=
                (if truthy (bath_happiness (bath_statChanges b))
                 then Some (max 0 (min 100 (happiness s + num (bath_happiness (bath_statChanges b)))))
                 else None) \<rparr>
      in handleAction actionLabel (bath_cost b) (bath_duration b) statChanges BathEffect now
           (addEvent (GettingBath (pet_name (pet st)) (toLowerCase actionLabel)) now st))"

definition vetClick :: "PetConfig \<Rightarrow> int \<Rightarrow> Dashboard \<Rightarrow> Dashboard" where
  "vetClick cfg now st =
     (let v = vetVisit (actions cfg);
          s = stats (pet st)
      in handleAction ''Vet Visit'' (vet_cost v) (vet_duration v)
           (noChanges
              \<lparr> new_hygiene := Some (min 100 (hygiene s + vet_hygiene (vet_statChanges v))),
                new_happiness := Some (min 100 (happiness s + vet_happiness (vet_statChanges v))),
                new_energy := Some (min 100 (energy s + vet_energy (vet_statChanges v))) \<rparr>)
           VetEffect now
           (addEvent (TakingToVet (pet_name (pet st))) now st))"

definition groomingLabel :: "string \<Rightarrow> string" where
  "groomingLabel t =
     (if t = ''parrot'' then ''Trimming Beak/Claws''
      else if t = ''cat'' then ''Brushing''
      else if t = ''rabbit'' then ''Brushing''
      else ''Trimming Nails'')"

definition groomingClick :: "PetConfig \<Rightarrow> int \<Rightarrow> Dashboard \<Rightarrow> Dashboard" where
  "groomingClick cfg now st =
     (let g = grooming (actions cfg);
          s = stats (pet st);
          actionLabel = groomingLabel (pet_type (pet st));
          statChanges = noChanges
            \<lparr> new_hygiene := Some (min 100 (hygiene s + grooming_hygiene (grooming_statChanges g))),
              new_happiness :=
                (if truthy (grooming_happiness (grooming_statChanges g))
                 then Some (max 0 (min 100
                        (happiness s + num (grooming_happiness (grooming_statChanges g)))))
                 else None) \<rparr>
      in handleAction actionLabel (grooming_cost g) (grooming_duration g) statChanges
           GroomingEffect now
           (addEvent (GroomingStart actionLabel (pet_name (pet st))) now st))"

fun onClick ::
  "PetConfig \<Rightarrow> ActionKind \<Rightarrow> real \<Rightarrow> real \<Rightarrow> real \<Rightarrow> int \<Rightarrow> Dashboard \<Rightarrow> Dashboard" where
  "onClick cfg Feed r1 r2 r3 now st = feedClick cfg now st"
| "onClick cfg Water r1 r2 r3 now st = waterClick cfg now st"
| "onClick cfg Exercise r1 r2 r3 now st = exerciseClick cfg r1 r2 r3 now st"
| "onClick cfg Play r1 r2 r3 now st = playClick cfg r1 r2 r3 now st"
| "onClick cfg BuyToy r1 r2 r3 now st = buyToyClick now st"
| "onClick cfg Bath r1 r2 r3 now st = bathClick cfg now st"
| "onClick cfg VetVisit r1 r2 r3 now st = vetClick cfg now st"
| "onClick cfg Grooming r1 r2 r3 now st = groomingClick cfg now st"

definition attempt ::
  "PetConfig \<Rightarrow> ActionKind \<Rightarrow> real \<Rightarrow> real \<Rightarrow> real \<Rightarrow> int \<Rightarrow> Dashboard \<Rightarrow> Dashboard" where
  \<comment> \<open>A press on a tile. \<^verbatim>\<open>ActionButton\<close> hands \<^verbatim>\<open>disabled\<close> and \<^verbatim>\<open>onClick\<close> to the
      button, and a disabled button does not call its handler; the handlers and
      \<^verbatim>\<open>handleAction\<close> test nothing themselves.\<close>
  "attempt cfg kind r1 r2 r3 now st =
     (if disabled cfg kind st then st else onClick cfg kind r1 r2 r3 now st)"



subsection \<open>Cooldown projection, first purchase\<close>

definition updateCountdowns :: "PetConfig \<Rightarrow> int \<Rightarrow> Dashboard \<Rightarrow> Dashboard" where
  \<comment> \<open>The walk part of \<^verbatim>\<open>updateCountdowns\<close>; the state keeps the hours left.\<close>
  "updateCountdowns cfg now st =
     (let hoursSinceLastExercise = real_of_int (now - lastWalkTime st) / (1000 * 60 * 60)
      in if hoursSinceLastExercise \<ge> exercise_cooldownHours (exercise (actions cfg))
            \<or> lastWalkTime st = 0
         then st\<lparr>walkCountdown := None\<rparr>
         else st\<lparr>walkCountdown :=
                   Some (exercise_cooldownHours (exercise (actions cfg)) - hoursSinceLastExercise)\<rparr>)"

definition handleInitialPurchaseComplete :: "int \<Rightarrow> int \<Rightarrow> Dashboard \<Rightarrow> Dashboard" where
  "handleInitialPurchaseComplete cost now st =
     addEvent (PurchasedEssentials cost) now
       (st\<lparr>totalSpent := totalSpent st + cost, hasToy := True\<rparr>)"

subsection \<open>Offline catch-up\<close>

record SavedStats =
  saved_hunger :: real
  saved_happiness :: real
  saved_hygiene :: real
  saved_energy :: real
  saved_thirst :: "real option"   \<comment> \<open>absent in a record written before thirst existed\<close>

record Saved =
  saved_type :: string
  saved_name :: string
  saved_stats :: SavedStats
  saved_totalSpent :: int
  saved_events :: "EventEntry list"
  saved_hasToy :: bool
  saved_lastWalkTime :: int
  saved_lastBathTime :: int
  saved_lastTrimNailsTime :: int
  saved_feedCount :: nat
  lastSaved :: int

definition calculateDecay :: "int \<Rightarrow> real \<Rightarrow> real \<Rightarrow> real \<Rightarrow> real" where
  \<comment> \<open>\<open>currentHour\<close> is \<^verbatim>\<open>now.getHours()\<close>, which the source function reads from its scope.\<close>
  "calculateDecay currentHour stat decayRate hours =
     (let isNighttime = (currentHour \<ge> 22 \<or> currentHour < 6)
      in if isNighttime \<and> (decayRate = 1 \<or> decayRate = 0.5)
         then max 0 (stat - (decayRate * 0.2 * hours))
         else max 0 (stat - (decayRate * hours)))"

definition thirstOr80 :: "real option \<Rightarrow> real" where
  \<comment> \<open>\<^verbatim>\<open>parsed.pet.stats.thirst || 80\<close>\<close>
  "thirstOr80 t = (if truthy t then num t else 80)"

definition catchUpStats :: "int \<Rightarrow> real \<Rightarrow> SavedStats \<Rightarrow> PetStats" where
  \<comment> \<open>\<^verbatim>\<open>newStats\<close> of the restore effect.\<close>
  "catchUpStats currentHour hoursElapsed sv =
     \<lparr> hunger = calculateDecay currentHour (saved_hunger sv) 1 hoursElapsed,
       happiness = calculateDecay currentHour (saved_happiness sv) 0.5 hoursElapsed,
       hygiene = calculateDecay currentHour (saved_hygiene sv) 0.3 hoursElapsed,
       energy = calculateDecay currentHour (saved_energy sv) 0.4 hoursElapsed,
       thirst = calculateDecay currentHour (thirstOr80 (saved_thirst sv)) 2 hoursElapsed \<rparr>"

definition loadSaved :: "Saved \<Rightarrow> int \<Rightarrow> int \<Rightarrow> Dashboard \<Rightarrow> Dashboard" where
  \<comment> \<open>The restore effect on a parsed record; \<open>now\<close> in milliseconds.\<close>
  "loadSaved parsed currentHour now st =
     (if saved_name parsed = pet_name (pet st) \<and> saved_type parsed = pet_type (pet st) then
        (let minutesElapsed = real_of_int (now - lastSaved parsed) / (1000 * 60);
             hoursElapsed = minutesElapsed / 60;
             newStats = catchUpStats currentHour hoursElapsed (saved_stats parsed);
             st1 = st\<lparr> pet := \<lparr> pet_type = saved_type parsed, pet_name = saved_name parsed,
                                 stats = newStats, emotion = updateEmotion newStats False \<rparr>,
                        totalSpent := saved_totalSpent parsed,
                        events := saved_events parsed,
                        hasToy := saved_hasToy parsed,
                        lastWalkTime := saved_lastWalkTime parsed,
                        lastBathTime := saved_lastBathTime parsed,
                        lastTrimNailsTime := saved_lastTrimNailsTime parsed,
                        feedCount := saved_feedCount parsed \<rparr>
         in if minutesElapsed > 5 then addEvent (WelcomeBack \<lfloor>minutesElapsed\<rfloor>) now st1 else st1)
      else st)"

subsection \<open>Choosing a pet (\<^verbatim>\<open>Index\<close>, \<^verbatim>\<open>src/unnamed/part_006\<close>)\<close>

definition dogInitialHunger :: "real \<Rightarrow> real" where
  \<comment> \<open>The value \<^verbatim>\<open>hunger\<close> gets in \<^verbatim>\<open>calculateInitialStats\<close>, by the minute of the day.\<close>
  "dogInitialHunger totalMinutesFromMidnight =
     (let sixAM = 360; sevenAM = 420; eightAM = 480; sevenPM = 1140; tenPM = 1320 in
      if totalMinutesFromMidnight < sixAM then 25
      else if totalMinutesFromMidnight < eightAM then
        max 20 (25 - ((totalMinutesFromMidnight - sixAM) / (eightAM - sixAM) * 5))
      else if totalMinutesFromMidnight < sevenPM then
        max 0 (90 - ((totalMinutesFromMidnight - sevenAM) / 6.75))
      else if totalMinutesFromMidnight < tenPM then
        max 0 (90 - ((totalMinutesFromMidnight - sevenPM) / 6.75))
      else
        (let totalSleepMinutes = 480;
             hungerAtTenPM = 90 - ((tenPM - sevenPM) / 6.75);
             hungerDecayDuringSleep = (hungerAtTenPM - 20) / totalSleepMinutes
         in max 20 (hungerAtTenPM -
              ((totalMinutesFromMidnight - tenPM) * hungerDecayDuringSleep))))"

definition dogInitialEnergy :: "real \<Rightarrow> real" where
  \<comment> \<open>The value \<^verbatim>\<open>energy\<close> gets in \<^verbatim>\<open>calculateInitialStats\<close>.\<close>
  "dogInitialEnergy totalMinutesFromMidnight =
     (let sixAM = 360; tenPM = 1320 in
      if totalMinutesFromMidnight \<ge> tenPM \<or> totalMinutesFromMidnight < sixAM then
        (let minutesIntoSleep =
               (if totalMinutesFromMidnight \<ge> tenPM then totalMinutesFromMidnight - tenPM
                else totalMinutesFromMidnight + (1440 - tenPM));
             totalSleepMinutes = 480;
             energyGainDuringSleep = 60 / totalSleepMinutes
         in min 85 (25 + (minutesIntoSleep * energyGainDuringSleep)))
      else
        (let totalDayMinutes = 960;
             energyDrainRate = 60 / totalDayMinutes
         in max 25 (85 - ((totalMinutesFromMidnight - sixAM) * energyDrainRate))))"

definition calculateInitialStats :: "string \<Rightarrow> int \<Rightarrow> int \<Rightarrow> PetStats" where
  \<comment> \<open>\<open>currentHour\<close> and \<open>currentMinute\<close> are read from the clock when the pet is chosen.\<close>
  "calculateInitialStats t currentHour currentMinute =
     (let petConfig = petConfigOf t in
      if t = ''dog'' then
        (let totalMinutesFromMidnight = real_of_int (currentHour * 60 + currentMinute)
         in \<lparr> hunger = real_of_int (round_js (dogInitialHunger totalMinutesFromMidnight)),
              happiness = happiness (initialStats petConfig),
              hygiene = hygiene (initialStats petConfig),
              energy = real_of_int (round_js (dogInitialEnergy totalMinutesFromMidnight)),
              thirst = thirst (initialStats petConfig) \<rparr>)
      else initialStats petConfig)"

definition handlePetSelect :: "string \<Rightarrow> string \<Rightarrow> int \<Rightarrow> int \<Rightarrow> Pet" where
  "handlePetSelect t name currentHour currentMinute =
     \<lparr> pet_type = t, pet_name = name,
       stats = calculateInitialStats t currentHour currentMinute, emotion = Happy \<rparr>"

subsection \<open>Reachable states\<close>

definition configOf :: "Dashboard \<Rightarrow> PetConfig" where
  \<comment> \<open>\<^verbatim>\<open>const petConfig = petConfigs[pet.type as PetType] || petConfigs.dog\<close>\<close>
  "configOf st = petConfigOf (pet_type (pet st))"

definition savedInRange :: "SavedStats \<Rightarrow> bool" where
  "savedInRange sv =
     (0 \<le> saved_hunger sv \<and> saved_hunger sv \<le> 100 \<and>
      0 \<le> saved_happiness sv \<and> saved_happiness sv \<le> 100 \<and>
      0 \<le> saved_hygiene sv \<and> saved_hygiene sv \<le> 100 \<and>
      0 \<le> saved_energy sv \<and> saved_energy sv \<le> 100 \<and>
      (case saved_thirst sv of None \<Rightarrow> True | Some t \<Rightarrow> 0 \<le> t \<and> t \<le> 100))"

text \<open>
  The states the screen can be in: it starts from a pet whose stats are in range; a
  persisted record holds stats in range and was written no later than it is read; the
  timers, the clock and the user then act in any order. Each callback works with the
  profile of the pet's type.
\<close>

inductive reachable :: "Dashboard \<Rightarrow> bool" where
  mounted: "statsInRange (stats initialPet) \<Longrightarrow> reachable (initDashboard initialPet now)"
| restored: "reachable st \<Longrightarrow> savedInRange (saved_stats parsed) \<Longrightarrow> lastSaved parsed \<le> now
             \<Longrightarrow> reachable (loadSaved parsed currentHour now st)"
| purchased: "reachable st \<Longrightarrow> reachable (handleInitialPurchaseComplete cost now st)"
| sleep_checked: "reachable st \<Longrightarrow> reachable (checkSleepCycle (configOf st) currentHour now st)"
| decayed: "reachable st \<Longrightarrow> reachable (decayTick (configOf st) currentHour currentMinute now st)"
| idled: "reachable st \<Longrightarrow> reachable (idleEvent rand rand2 now st)"
| refreshed: "reachable st \<Longrightarrow> reachable (updateCountdowns (configOf st) now st)"
| pressed: "reachable st \<Longrightarrow> reachable (attempt (configOf st) kind r1 r2 r3 now st)"
| counted_down: "reachable st \<Longrightarrow> reachable (countdownTick now st)"
| sub_event: "reachable st \<Longrightarrow> reachable (fireEventTimer i now st)"
| penalty_due: "reachable st \<Longrightarrow> reachable (firePenaltyTimer i now st)"

subsection \<open>Conditions on a profile\<close>

definition sleepMinutes :: "PetConfig \<Rightarrow> int" where
  \<comment> \<open>\<^verbatim>\<open>totalSleepMinutes\<close> of the asleep branch.\<close>
  "sleepMinutes cfg =
     (let start = sleep_start (sleepHours cfg); end_h = sleep_end (sleepHours cfg)
      in (if start > end_h then 24 - start + end_h else end_h - start) * 60)"

definition positiveRates :: "PetConfig \<Rightarrow> bool" where
  "positiveRates cfg =
     (0 < decay_hunger (decayRates cfg) \<and> 0 < decay_happiness (decayRates cfg) \<and>
      0 < decay_hygiene (decayRates cfg) \<and> 0 < decay_energy (decayRates cfg) \<and>
      0 < decay_thirst (decayRates cfg))"

definition gainsNonNegative :: "PetConfig \<Rightarrow> bool" where
  \<comment> \<open>The deltas a tile adds under a cap at 100 only are gains.\<close>
  "gainsNonNegative cfg =
     (let a = actions cfg in
      0 \<le> feed_hunger (feed_statChanges (feed a)) \<and>
      0 \<le> num (feed_happiness (feed_statChanges (feed a))) \<and>
      0 \<le> num (feed_energy (feed_statChanges (feed a))) \<and>
      0 \<le> water_thirst (water_statChanges (water a)) \<and>
      0 \<le> num (water_happiness (water_statChanges (water a))) \<and>
      0 \<le> exercise_happiness (exercise_statChanges (exercise a)) \<and>
      0 \<le> play_happiness (play_statChanges (play a)) \<and>
      0 \<le> bath_hygiene (bath_statChanges (bath a)) \<and>
      0 \<le> grooming_hygiene (grooming_statChanges (grooming a)) \<and>
      0 \<le> vet_hygiene (vet_statChanges (vetVisit a)) \<and>
      0 \<le> vet_happiness (vet_statChanges (vetVisit a)) \<and>
      0 \<le> vet_energy (vet_statChanges (vetVisit a)))"

definition wfConfig :: "PetConfig \<Rightarrow> bool" where
  "wfConfig cfg = (positiveRates cfg \<and> 0 < sleepMinutes cfg \<and> gainsNonNegative cfg)"

definition changesInRange :: "StatChanges \<Rightarrow> bool" where
  "changesInRange c =
     ((case new_hunger c of None \<Rightarrow> True | Some v \<Rightarrow> 0 \<le> v \<and> v \<le> 100) \<and>
      (case new_happiness c of None \<Rightarrow> True | Some v \<Rightarrow> 0 \<le> v \<and> v \<le> 100) \<and>
      (case new_hygiene c of None \<Rightarrow> True | Some v \<Rightarrow> 0 \<le> v \<and> v \<le> 100) \<and>
      (case new_energy c of None \<Rightarrow> True | Some v \<Rightarrow> 0 \<le> v \<and> v \<le> 100) \<and>
      (case new_thirst c of None \<Rightarrow> True | Some v \<Rightarrow> 0 \<le> v \<and> v \<le> 100))"

fun subEventOk :: "SubEvent \<Rightarrow> bool" where
  "subEventOk (HappinessBonus amount msg) = (0 \<le> amount)"
| "subEventOk (HygieneLoss amount msg) = (0 \<le> amount)"


fun toyWasHeld :: "Effect \<Rightarrow> bool" where
  \<comment> \<open>A play closure whose toy breaks was created in a render that had the toy.\<close>
  "toyWasHeld (PlayEffect toyBreaks hasToy_then) = (if toyBreaks then hasToy_then else True)"
| "toyWasHeld e = True"

definition staleToy :: "Dashboard \<Rightarrow> bool" where
  \<comment> \<open>Every pending toy-break timeout holds \<^verbatim>\<open>hasToy = true\<close>.\<close>
  "staleToy st =
     (list_all (\<lambda>hasToy_then. hasToy_then) (penaltyTimers st) \<and>
      (case interval st of None \<Rightarrow> True | Some cd \<Rightarrow> toyWasHeld (cd_effect cd)))"

definition rangeInv :: "Dashboard \<Rightarrow> bool" where
  \<comment> \<open>What every reachable state keeps: the stats, the values a running action will
      write and the amounts of the pending sub-events.\<close>
  "rangeInv st =
     (statsInRange (stats (pet st)) \<and>
      (case interval st of None \<Rightarrow> True | Some cd \<Rightarrow> changesInRange (cd_statChanges cd)) \<and>
      list_all subEventOk (eventTimers st))"

section \<open>Notions of the specification\<close>

definition ticksAwake :: "PetConfig \<Rightarrow> bool \<Rightarrow> nat \<Rightarrow> PetStats \<Rightarrow> PetStats" where
  \<comment> \<open>The specification's words: the awake branch of the decay clock run over a duration,
      that is \<open>n\<close> ticks of 30 seconds each (so \<^verbatim>\<open>minutesSinceRest\<close> is 0.5 at every tick).\<close>
  "ticksAwake cfg daytime n s = ((awakeStats cfg daytime 0.5) ^^ n) s"

definition savedOf :: "PetStats \<Rightarrow> SavedStats" where
  \<comment> \<open>The stats as the save effect writes them into the persisted record.\<close>
  "savedOf s =
     \<lparr> saved_hunger = hunger s, saved_happiness = happiness s, saved_hygiene = hygiene s,
       saved_energy = energy s, saved_thirst = Some (thirst s) \<rparr>"


definition normalHappinessRate :: "PetConfig \<Rightarrow> real" where
  \<comment> \<open>The specification's words (awake branch): happiness decays at
      \<^verbatim>\<open>0.5/decayRates.happiness\<close> per tick, before the low-hunger and low-hygiene factors.\<close>
  "normalHappinessRate cfg = 0.5 / decay_happiness (decayRates cfg)"

definition normalHygieneRate :: "PetConfig \<Rightarrow> real" where
  \<comment> \<open>The specification's words (awake branch): hygiene decays at
      \<^verbatim>\<open>0.5/(2*decayRates.hygiene)\<close> per tick.\<close>
  "normalHygieneRate cfg = 0.5 / (2 * decay_hygiene (decayRates cfg))"

definition isNight :: "int \<Rightarrow> bool" where
  \<comment> \<open>The band \<^verbatim>\<open>isNighttime\<close> of \<^verbatim>\<open>calculateDecay\<close> tests.\<close>
  "isNight currentHour = (currentHour \<ge> 22 \<or> currentHour < 6)"

section \<open>Concrete inputs of the examples\<close>

definition stats10 :: PetStats where
  "stats10 = \<lparr> hunger = 10, happiness = 10, hygiene = 10, energy = 10, thirst = 10 \<rparr>"

definition rex :: Pet where
  \<comment> \<open>A dog due for a meal.\<close>
  "rex = \<lparr> pet_type = ''dog'', pet_name = ''Rex'',
            stats = \<lparr> hunger = 30, happiness = 80, hygiene = 90, energy = 80, thirst = 80 \<rparr>,
            emotion = Happy \<rparr>"

definition stats80 :: PetStats where
  "stats80 = \<lparr> hunger = 80, happiness = 80, hygiene = 80, energy = 80, thirst = 80 \<rparr>"

definition wornOut :: PetStats where
  \<comment> \<open>A pet asleep with hunger near its night floor and low hygiene.\<close>
  "wornOut = \<lparr> hunger = 21, happiness = 40, hygiene = 30, energy = 99.5, thirst = 20 \<rparr>"

definition vetOnly :: ActionCounts where
  "vetOnly = \<lparr> cnt_feed = 0, cnt_water = 0, cnt_walk = 0, cnt_play = 0, cnt_bath = 0,
                cnt_vet = 1, cnt_groom = 0 \<rparr>"

definition noActions :: ActionCounts where
  "noActions = \<lparr> cnt_feed = 0, cnt_water = 0, cnt_walk = 0, cnt_play = 0, cnt_bath = 0,
                  cnt_vet = 0, cnt_groom = 0 \<rparr>"

definition nearTie :: PetStats where
  \<comment> \<open>Four stats at 50 and energy at the double written \<^verbatim>\<open>52.49999999999999\<close>, the
      neighbour of 52.5 from below.\<close>
  "nearTie = \<lparr> hunger = 50, happiness = 50, hygiene = 50, energy = 105 / 2 - 1 / 2 ^ 47,
                thirst = 50 \<rparr>"

definition fourKinds :: ActionCounts where
  \<comment> \<open>feed, water, play and bath counted once each\<close>
  "fourKinds = \<lparr> cnt_feed = 1, cnt_water = 1, cnt_walk = 0, cnt_play = 1, cnt_bath = 1,
                  cnt_vet = 0, cnt_groom = 0 \<rparr>"

definition equipped :: Dashboard where
  \<comment> \<open>Rex after the first purchase: awake, idle, with a toy.\<close>
  "equipped = handleInitialPurchaseComplete 100 0 (initDashboard rex 0)"

definition playing :: Dashboard where
  \<comment> \<open>A press on Play whose third draw (0.05) makes the toy break.\<close>
  "playing = attempt (configOf equipped) Play 0.5 0.5 0.05 1000 equipped"

definition toyBroken :: Dashboard where
  \<comment> \<open>The five one-second ticks of the play action have run; no toy is bought.\<close>
  "toyBroken = ((countdownTick 6000) ^^ 5) playing"




definition rexSave :: Saved where
  \<comment> \<open>A record the save effect wrote for Rex at time 0.\<close>
  "rexSave =
     \<lparr> saved_type = ''dog'', saved_name = ''Rex'',
       saved_stats = \<lparr> saved_hunger = 30, saved_happiness = 80, saved_hygiene = 90,
                       saved_energy = 80, saved_thirst = Some 80 \<rparr>,
       saved_totalSpent = 100, saved_events = [], saved_hasToy = True,
       saved_lastWalkTime = 0, saved_lastBathTime = 0, saved_lastTrimNailsTime = 0,
       saved_feedCount = 0, lastSaved = 0 \<rparr>"

definition fullSave :: Saved where
  \<comment> \<open>A record written for a Rex with every stat at 100, an hour after time 0.\<close>
  "fullSave =
     \<lparr> saved_type = ''dog'', saved_name = ''Rex'',
       saved_stats = \<lparr> saved_hunger = 100, saved_happiness = 100, saved_hygiene = 100,
                       saved_energy = 100, saved_thirst = Some 100 \<rparr>,
       saved_totalSpent = 100, saved_events = [], saved_hasToy = True,
       saved_lastWalkTime = 0, saved_lastBathTime = 0, saved_lastTrimNailsTime = 0,
       saved_feedCount = 0, lastSaved = 3600000 \<rparr>"

definition thirstyRex :: Pet where
  \<comment> \<open>Rex as the persisted record below holds him: his thirst has reached 0.\<close>
  "thirstyRex = rex\<lparr>stats := (stats rex)\<lparr>thirst := 0\<rparr>\<rparr>"

definition thirstySave :: Saved where
  \<comment> \<open>A record the save effect wrote for Rex when his thirst had reached 0.\<close>
  "thirstySave =
     \<lparr> saved_type = ''dog'', saved_name = ''Rex'',
       saved_stats = \<lparr> saved_hunger = 30, saved_happiness = 80, saved_hygiene = 90,
                       saved_energy = 80, saved_thirst = Some 0 \<rparr>,
       saved_totalSpent = 100, saved_events = [], saved_hasToy = True,
       saved_lastWalkTime = 0, saved_lastBathTime = 0, saved_lastTrimNailsTime = 0,
       saved_feedCount = 0, lastSaved = 0 \<rparr>"

section \<open>Theorems: report grading\<close>

lemma gradeRank_getGrade:
  "gradeRank (getGrade s) =
     (if s \<ge> 97 then 12 else if s \<ge> 93 then 11 else if s \<ge> 90 then 10
      else if s \<ge> 87 then 9 else if s \<ge> 83 then 8 else if s \<ge> 80 then 7
      else if s \<ge> 77 then 6 else if s \<ge> 73 then 5 else if s \<ge> 70 then 4
      else if s \<ge> 67 then 3 else if s \<ge> 63 then 2 else if s \<ge> 60 then 1 else 0)"
  by (simp add: getGrade_def gradeRank_def)

lemma getGrade_mono: "s1 \<le> s2 \<Longrightarrow> gradeRank (getGrade s1) \<le> gradeRank (getGrade s2)"
  unfolding gradeRank_getGrade by (simp split: if_splits)

lemma variety_length:
  "length (filter (\<lambda>c. c > 0) [a, b, c, d, e, f :: nat]) =
     (if a > 0 then 1 else 0) + (if b > 0 then 1 else 0) + (if c > 0 then 1 else 0) +
     (if d > 0 then 1 else 0) + (if e > 0 then 1 else 0) + (if f > 0 then 1 else 0)"
  by simp

text \<open>
  C5. The letter grade follows the threshold table, band by band; the grade never gets
  worse as the score grows (\<open>gradeRank\<close> orders the thirteen grades, and tells them
  apart); 96 is an A, 97 an A+, 59 an F.
\<close>

theorem getGrade_table_monotone:
  "(getGrade s = ''A+'' \<longleftrightarrow> 97 \<le> s) \<and>
   (getGrade s = ''A'' \<longleftrightarrow> 93 \<le> s \<and> s < 97) \<and>
   (getGrade s = ''A-'' \<longleftrightarrow> 90 \<le> s \<and> s < 93) \<and>
   (getGrade s = ''B+'' \<longleftrightarrow> 87 \<le> s \<and> s < 90) \<and>
   (getGrade s = ''B'' \<longleftrightarrow> 83 \<le> s \<and> s < 87) \<and>
   (getGrade s = ''B-'' \<longleftrightarrow> 80 \<le> s \<and> s < 83) \<and>
   (getGrade s = ''C+'' \<longleftrightarrow> 77 \<le> s \<and> s < 80) \<and>
   (getGrade s = ''C'' \<longleftrightarrow> 73 \<le> s \<and> s < 77) \<and>
   (getGrade s = ''C-'' \<longleftrightarrow> 70 \<le> s \<and> s < 73) \<and>
   (getGrade s = ''D+'' \<longleftrightarrow> 67 \<le> s \<and> s < 70) \<and>
   (getGrade s = ''D'' \<longleftrightarrow> 63 \<le> s \<and> s < 67) \<and>
   (getGrade s = ''D-'' \<longleftrightarrow> 60 \<le> s \<and> s < 63) \<and>
   (getGrade s = ''F'' \<longleftrightarrow> s < 60) \<and>
   (s1 \<le> s2 \<longrightarrow> gradeRank (getGrade s1) \<le> gradeRank (getGrade s2)) \<and>
   (gradeRank (getGrade s1) = gradeRank (getGrade s2) \<longrightarrow> getGrade s1 = getGrade s2) \<and>
   getGrade 96 = ''A'' \<and> getGrade 97 = ''A+'' \<and> getGrade 59 = ''F''"
proof (intro conjI)
  show "s1 \<le> s2 \<longrightarrow> gradeRank (getGrade s1) \<le> gradeRank (getGrade s2)"
    using getGrade_mono by blast
  show "gradeRank (getGrade s1) = gradeRank (getGrade s2) \<longrightarrow> getGrade s1 = getGrade s2"
    unfolding gradeRank_getGrade by (simp add: getGrade_def)
qed (simp_all add: getGrade_def)

theorem getGrade_table_monotone_witness:
  "getGrade 96 = ''A'' \<and> gradeRank (getGrade 59) \<le> gradeRank (getGrade 97) \<and>
   gradeRank (getGrade 59) = 0 \<and> gradeRank (getGrade 97) = 12 \<and> getGrade 59 \<noteq> getGrade 97"
  using getGrade_table_monotone [of 96 59 97] by (simp add: gradeRank_def)

section \<open>Theorems: the stats stay in range\<close>

subsection \<open>The four profiles\<close>

lemma wfConfig_petConfigOf: "wfConfig (petConfigOf t)"
  by (simp add: petConfigOf_def petConfigs_def wfConfig_def positiveRates_def sleepMinutes_def
      gainsNonNegative_def num_def dogConfig_def catConfig_def parrotConfig_def rabbitConfig_def)

lemma lower_clamp_range:
  fixes x d :: real
  shows "0 \<le> x \<Longrightarrow> x \<le> 100 \<Longrightarrow> 0 \<le> d \<Longrightarrow> 0 \<le> max 0 (x - d) \<and> max 0 (x - d) \<le> 100"
  by simp

lemma upper_clamp_range:
  fixes x d :: real
  shows "0 \<le> x \<Longrightarrow> x \<le> 100 \<Longrightarrow> 0 \<le> d \<Longrightarrow> 0 \<le> min 100 (x + d) \<and> min 100 (x + d) \<le> 100"
  by simp

lemma awakeStats_fields:
  "hunger (awakeStats cfg daytime m s) =
     max 0 (hunger s - (1 / decay_hunger (decayRates cfg)) * 0.5)"
  "happiness (awakeStats cfg daytime m s) =
     max 0 (happiness s - ((1 / decay_happiness (decayRates cfg)) * 0.5 *
        (if hunger s < 25 then 1.5 else 1) * (if hygiene s < 40 then 1.5 else 1)))"
  "hygiene (awakeStats cfg daytime m s) =
     max 0 (hygiene s - (1 / (decay_hygiene (decayRates cfg) * 2)) * 0.5)"
  "energy (awakeStats cfg daytime m s) =
     min 100 (max 0 (energy s + (if daytime then - (1 / decay_energy (decayRates cfg)) * 0.5
                                 else min 2 (m / 10))))"
  "thirst (awakeStats cfg daytime m s) =
     max 0 (thirst s - (1 / decay_thirst (decayRates cfg)) * 0.5)"
  by (simp_all add: awakeStats_def Let_def)

lemma awakeStats_inRange:
  assumes "positiveRates cfg" "statsInRange s"
  shows "statsInRange (awakeStats cfg daytime m s)"
proof -
  from assms(1) have d:
    "0 \<le> (1 / decay_hunger (decayRates cfg)) * 0.5"
    "0 \<le> (1 / decay_happiness (decayRates cfg)) * 0.5 *
        (if hunger s < 25 then 1.5 else 1) * (if hygiene s < 40 then 1.5 else 1)"
    "0 \<le> (1 / (decay_hygiene (decayRates cfg) * 2)) * 0.5"
    "0 \<le> (1 / decay_thirst (decayRates cfg)) * 0.5"
    by (simp_all add: positiveRates_def)
  from assms(2) have r:
    "0 \<le> hunger s" "hunger s \<le> 100" "0 \<le> happiness s" "happiness s \<le> 100"
    "0 \<le> hygiene s" "hygiene s \<le> 100" "0 \<le> thirst s" "thirst s \<le> 100"
    by (simp_all add: statsInRange_def)
  show ?thesis
    unfolding statsInRange_def awakeStats_fields
    using lower_clamp_range [OF r(1,2) d(1)] lower_clamp_range [OF r(3,4) d(2)]
      lower_clamp_range [OF r(5,6) d(3)] lower_clamp_range [OF r(7,8) d(4)]
    by simp
qed

lemma asleepStats_fields:
  "hunger (asleepStats cfg s) =
     max 20 (hunger s - (max 0 ((hunger s - 20) / real_of_int (sleepMinutes cfg)) * 0.5))"
  "happiness (asleepStats cfg s) =
     max 0 (happiness s - ((1 / decay_happiness (decayRates cfg)) * 0.5 * 0.3))"
  "hygiene (asleepStats cfg s) =
     max 0 (hygiene s - ((1 / (decay_hygiene (decayRates cfg) * 2)) * 0.5 * 0.5))"
  "energy (asleepStats cfg s) = min 100 (energy s + 0.8)"
  "thirst (asleepStats cfg s) =
     max 15 (thirst s - ((thirst s - 15) / real_of_int (sleepMinutes cfg) * 0.5))"
  by (simp_all add: asleepStats_def sleepMinutes_def Let_def)

lemma asleepStats_inRange:
  assumes "positiveRates cfg" "0 < sleepMinutes cfg" "statsInRange s"
  shows "statsInRange (asleepStats cfg s)"
proof -
  define T where "T = real_of_int (sleepMinutes cfg)"
  have T: "1 \<le> T" using assms(2) by (simp add: T_def)
  from assms(1) have d:
    "0 \<le> (1 / decay_happiness (decayRates cfg)) * 0.5 * 0.3"
    "0 \<le> (1 / (decay_hygiene (decayRates cfg) * 2)) * 0.5 * 0.5"
    by (simp_all add: positiveRates_def)
  from assms(3) have r:
    "0 \<le> hunger s" "hunger s \<le> 100" "0 \<le> happiness s" "happiness s \<le> 100"
    "0 \<le> hygiene s" "hygiene s \<le> 100" "0 \<le> energy s" "energy s \<le> 100"
    "0 \<le> thirst s" "thirst s \<le> 100"
    by (simp_all add: statsInRange_def)
  define X where "X = max 0 ((hunger s - 20) / T)"
  have "0 \<le> X" by (simp add: X_def)
  then have "max 20 (hunger s - (X * 0.5)) \<le> 100"
    using r(2) by simp
  then have hunger_ok: "max 20 (hunger s - (max 0 ((hunger s - 20) / T) * 0.5)) \<le> 100"
    by (simp add: X_def)
  define Y where "Y = (thirst s - 15) / T"
  have "thirst s - (Y * 0.5) \<le> 100"
  proof (cases "15 \<le> thirst s")
    case True
    then have "0 \<le> Y" using T by (simp add: Y_def)
    then show ?thesis using r(10) by simp
  next
    case False
    then have "Y \<le> 0" using T by (simp add: Y_def divide_le_0_iff)
    moreover have "thirst s - 15 \<le> Y"
      using False T mult_left_mono [of 1 T "15 - thirst s"]
      by (simp add: Y_def le_divide_eq algebra_simps)
    ultimately show ?thesis using False by simp
  qed
  then have "thirst s - ((thirst s - 15) / T * 0.5) \<le> 100"
    by (simp add: Y_def)
  then have thirst_ok: "max 15 (thirst s - ((thirst s - 15) / T * 0.5)) \<le> 100"
    by simp
  show ?thesis
    unfolding statsInRange_def asleepStats_fields T_def [symmetric]
    using lower_clamp_range [OF r(3,4) d(1)] lower_clamp_range [OF r(5,6) d(2)]
      hunger_ok thirst_ok r(7)
    by (simp add: le_max_iff_disj)
qed

subsection \<open>A freshly chosen pet\<close>

lemma round_js_range: "0 \<le> x \<Longrightarrow> x \<le> 100 \<Longrightarrow> 0 \<le> round_js x \<and> round_js x \<le> 100"
  unfolding round_js_def by (simp add: le_floor_iff floor_le_iff)

lemma initialStats_inRange: "statsInRange (initialStats (petConfigOf t))"
  by (simp add: petConfigOf_def petConfigs_def statsInRange_def
      dogConfig_def catConfig_def parrotConfig_def rabbitConfig_def)

lemma dogInitialHunger_range:
  "0 \<le> tm \<Longrightarrow> 0 \<le> dogInitialHunger tm \<and> dogInitialHunger tm \<le> 100"
  unfolding dogInitialHunger_def Let_def by (auto simp: max_def; argo)

lemma dogInitialEnergy_range:
  "0 \<le> tm \<Longrightarrow> 0 \<le> dogInitialEnergy tm \<and> dogInitialEnergy tm \<le> 100"
  unfolding dogInitialEnergy_def Let_def by (auto simp: max_def min_def; argo)

lemma calculateInitialStats_inRange:
  assumes "0 \<le> currentHour" "0 \<le> currentMinute"
  shows "statsInRange (calculateInitialStats t currentHour currentMinute)"
proof (cases "t = ''dog''")
  case False
  then show ?thesis by (simp add: calculateInitialStats_def initialStats_inRange)
next
  case True
  define tm where "tm = real_of_int (currentHour * 60 + currentMinute)"
  have tm: "0 \<le> tm" using assms by (simp add: tm_def)
  note h = dogInitialHunger_range [OF tm] and e = dogInitialEnergy_range [OF tm]
  from round_js_range [of "dogInitialHunger tm"] round_js_range [of "dogInitialEnergy tm"] h e
    initialStats_inRange [of t]
  show ?thesis
    using True by (simp add: calculateInitialStats_def Let_def statsInRange_def tm_def)
qed

lemma fresh_pet_reachable:
  "0 \<le> currentHour \<Longrightarrow> 0 \<le> currentMinute
   \<Longrightarrow> reachable (initDashboard (handlePetSelect t name currentHour currentMinute) now)"
  by (rule reachable.mounted) (simp add: handlePetSelect_def calculateInitialStats_inRange)

subsection \<open>Every callback keeps the invariant\<close>

lemma calculateDecay_range:
  assumes "0 \<le> stat" "stat \<le> 100" "0 \<le> hours" "0 \<le> rate"
  shows "0 \<le> calculateDecay h stat rate hours \<and> calculateDecay h stat rate hours \<le> 100"
proof -
  have "0 \<le> rate * 0.2 * hours" "0 \<le> rate * hours" using assms(3,4) by simp_all
  then show ?thesis
    using lower_clamp_range [OF assms(1,2), of "rate * 0.2 * hours"]
      lower_clamp_range [OF assms(1,2), of "rate * hours"]
    by (simp add: calculateDecay_def Let_def)
qed

lemma thirstOr80_range:
  "savedInRange sv \<Longrightarrow> 0 \<le> thirstOr80 (saved_thirst sv) \<and> thirstOr80 (saved_thirst sv) \<le> 100"
  by (cases "saved_thirst sv") (simp_all add: savedInRange_def thirstOr80_def truthy_def num_def)

lemma catchUpStats_inRange:
  assumes "savedInRange sv" "0 \<le> hoursElapsed"
  shows "statsInRange (catchUpStats h hoursElapsed sv)"
proof -
  from assms(1) have r:
    "0 \<le> saved_hunger sv" "saved_hunger sv \<le> 100"
    "0 \<le> saved_happiness sv" "saved_happiness sv \<le> 100"
    "0 \<le> saved_hygiene sv" "saved_hygiene sv \<le> 100"
    "0 \<le> saved_energy sv" "saved_energy sv \<le> 100"
    by (simp_all add: savedInRange_def)
  note t = thirstOr80_range [OF assms(1)]
  show ?thesis
    unfolding statsInRange_def catchUpStats_def
    using calculateDecay_range [OF r(1,2) assms(2), of 1 h]
      calculateDecay_range [OF r(3,4) assms(2), of "0.5" h]
      calculateDecay_range [OF r(5,6) assms(2), of "0.3" h]
      calculateDecay_range [OF r(7,8) assms(2), of "0.4" h]
      calculateDecay_range [OF conjunct1 [OF t] conjunct2 [OF t] assms(2), of 2 h]
    by simp
qed

lemma applyChanges_inRange:
  "changesInRange c \<Longrightarrow> statsInRange s \<Longrightarrow> statsInRange (applyChanges c s)"
  by (simp add: changesInRange_def statsInRange_def applyChanges_def split: option.splits)

lemma inv_addEvent [simp]: "rangeInv (addEvent msg now st) = rangeInv st"
  by (simp add: rangeInv_def addEvent_def)

lemma inv_actionTimer [simp]: "rangeInv (st\<lparr>actionTimer := t\<rparr>) = rangeInv st"
  by (simp add: rangeInv_def)

lemma inv_lastRestTime [simp]: "rangeInv (st\<lparr>lastRestTime := t\<rparr>) = rangeInv st"
  by (simp add: rangeInv_def)

lemma inv_loadSaved:
  assumes "rangeInv st" "savedInRange (saved_stats parsed)" "lastSaved parsed \<le> now"
  shows "rangeInv (loadSaved parsed h now st)"
proof -
  have "0 \<le> real_of_int (now - lastSaved parsed) / (1000 * 60) / 60"
    using assms(3) by simp
  from catchUpStats_inRange [OF assms(2) this, of h] assms(1)
  show ?thesis
    by (simp add: loadSaved_def Let_def rangeInv_def addEvent_def)
qed

lemma inv_purchase: "rangeInv st \<Longrightarrow> rangeInv (handleInitialPurchaseComplete cost now st)"
  by (simp add: handleInitialPurchaseComplete_def) (simp add: rangeInv_def)

lemma inv_checkSleepCycle: "rangeInv st \<Longrightarrow> rangeInv (checkSleepCycle cfg h now st)"
  by (simp add: checkSleepCycle_def) (simp add: rangeInv_def)

lemma inv_setStatsEmotion:
  "rangeInv st \<Longrightarrow> statsInRange (f (stats (pet st))) \<Longrightarrow> rangeInv (setStatsEmotion f b st)"
  by (simp add: rangeInv_def setStatsEmotion_def Let_def)

lemma inv_setStats:
  "rangeInv st \<Longrightarrow> statsInRange (f (stats (pet st))) \<Longrightarrow> rangeInv (setStats f st)"
  by (simp add: rangeInv_def setStats_def)

lemma inv_decayTick:
  assumes "rangeInv st" "wfConfig cfg"
  shows "rangeInv (decayTick cfg h m now st)"
proof -
  from assms(1) have s: "statsInRange (stats (pet st))" by (simp add: rangeInv_def)
  from assms(2) have p: "positiveRates cfg" and sl: "0 < sleepMinutes cfg"
    by (simp_all add: wfConfig_def)
  have a: "rangeInv (setStatsEmotion (awakeStats cfg d x) b st)" for d x b
    by (rule inv_setStatsEmotion [where f = "awakeStats cfg d x", OF assms(1) awakeStats_inRange [OF p s]])
  moreover have "rangeInv (setStatsEmotion (asleepStats cfg) True st)"
    by (rule inv_setStatsEmotion [where f = "asleepStats cfg", OF assms(1) asleepStats_inRange [OF p sl s]])
  ultimately show ?thesis using assms(1) a
    by (simp add: decayTick_def Let_def)
qed

lemma inv_idleEvent: "rangeInv st \<Longrightarrow> rangeInv (idleEvent r r2 now st)"
  by (simp add: idleEvent_def)

lemma inv_updateCountdowns: "rangeInv st \<Longrightarrow> rangeInv (updateCountdowns cfg now st)"
  by (simp add: updateCountdowns_def Let_def rangeInv_def)

lemma inv_handleAction:
  "rangeInv st \<Longrightarrow> changesInRange ch \<Longrightarrow> rangeInv (handleAction a c d ch e now st)"
  by (simp add: handleAction_def Let_def rangeInv_def addEvent_def)

lemma inv_runEffect: "rangeInv st \<Longrightarrow> rangeInv (runEffect e now st)"
  by (cases e) (simp_all add: rangeInv_def addEvent_def Let_def)

lemma inv_complete:
  assumes "rangeInv st" "interval st = Some cd"
  shows "rangeInv (complete cd now st)"
proof -
  from assms have c: "changesInRange (cd_statChanges cd)" and s: "statsInRange (stats (pet st))"
    by (simp_all add: rangeInv_def)
  have "rangeInv (st\<lparr>interval := None, activeAction := None\<rparr>)"
    using assms(1) by (simp add: rangeInv_def)
  then have "rangeInv (setStatsEmotion (applyChanges (cd_statChanges cd)) False
                    (st\<lparr>interval := None, activeAction := None\<rparr>))"
    by (rule inv_setStatsEmotion) (simp add: applyChanges_inRange [OF c s])
  then have "rangeInv (runEffect (cd_effect cd) now
                   (setStatsEmotion (applyChanges (cd_statChanges cd)) False
                    (st\<lparr>interval := None, activeAction := None\<rparr>)))"
    by (rule inv_runEffect)
  then show ?thesis
    by (simp add: complete_def Let_def)
qed

lemma inv_countdownTick: "rangeInv st \<Longrightarrow> rangeInv (countdownTick now st)"
proof (cases "interval st")
  case None
  then show "rangeInv st \<Longrightarrow> ?thesis" by (simp add: countdownTick_def)
next
  case (Some cd)
  assume i: "rangeInv st"
  from i inv_complete [OF i Some] Some show ?thesis by (simp add: countdownTick_def)
qed

lemma inv_eventTimers_append:
  "rangeInv st \<Longrightarrow> list_all subEventOk ts \<Longrightarrow> rangeInv (st\<lparr>eventTimers := eventTimers st @ ts\<rparr>)"
  by (simp add: rangeInv_def)

lemma changesInRange_noChanges [simp]: "changesInRange noChanges"
  by (simp add: changesInRange_def noChanges_def)

lemma sub_abs_le_100 [simp]: "x \<le> 100 \<Longrightarrow> x - \<bar>d\<bar> \<le> (100::real)"
  by linarith

lemma inv_feedClick:
  assumes "rangeInv st" "gainsNonNegative cfg"
  shows "rangeInv (feedClick cfg now st)"
proof -
  from assms(1) have s: "statsInRange (stats (pet st))" by (simp add: rangeInv_def)
  from assms(2) have g: "0 \<le> feed_hunger (feed_statChanges (feed (actions cfg)))"
    "0 \<le> num (feed_happiness (feed_statChanges (feed (actions cfg))))"
    "0 \<le> num (feed_energy (feed_statChanges (feed (actions cfg))))"
    by (simp_all add: gainsNonNegative_def Let_def)
  show ?thesis
    unfolding feedClick_def Let_def
    by (rule inv_handleAction [OF assms(1)])
       (use s g in \<open>simp add: changesInRange_def noChanges_def statsInRange_def\<close>)
qed

lemma inv_waterClick:
  assumes "rangeInv st" "gainsNonNegative cfg"
  shows "rangeInv (waterClick cfg now st)"
proof -
  from assms(1) have s: "statsInRange (stats (pet st))" by (simp add: rangeInv_def)
  from assms(2) have g: "0 \<le> water_thirst (water_statChanges (water (actions cfg)))"
    "0 \<le> num (water_happiness (water_statChanges (water (actions cfg))))"
    by (simp_all add: gainsNonNegative_def Let_def)
  show ?thesis
    unfolding waterClick_def Let_def
    by (rule inv_handleAction [OF assms(1)])
       (use s g in \<open>simp add: changesInRange_def noChanges_def statsInRange_def\<close>)
qed

lemma inv_exerciseClick:
  assumes "rangeInv st" "gainsNonNegative cfg"
  shows "rangeInv (exerciseClick cfg r1 r2 r3 now st)"
proof -
  from assms(1) have s: "statsInRange (stats (pet st))" by (simp add: rangeInv_def)
  from assms(2) have g: "0 \<le> exercise_happiness (exercise_statChanges (exercise (actions cfg)))"
    by (simp add: gainsNonNegative_def Let_def)
  show ?thesis
    unfolding exerciseClick_def Let_def
    apply (rule inv_handleAction)
     apply (rule inv_eventTimers_append)
      apply (simp add: assms(1))
     apply simp
    apply (use s g in \<open>simp add: changesInRange_def noChanges_def statsInRange_def\<close>)
    done
qed

lemma inv_playClick:
  assumes "rangeInv st" "gainsNonNegative cfg"
  shows "rangeInv (playClick cfg r1 r2 r3 now st)"
proof -
  from assms(1) have s: "statsInRange (stats (pet st))" by (simp add: rangeInv_def)
  from assms(2) have g: "0 \<le> play_happiness (play_statChanges (play (actions cfg)))"
    by (simp add: gainsNonNegative_def Let_def)
  show ?thesis
    unfolding playClick_def Let_def
    apply (rule inv_handleAction)
     apply (rule inv_eventTimers_append)
      apply (simp add: assms(1))
     apply simp
    apply (use s g in \<open>simp add: changesInRange_def noChanges_def statsInRange_def\<close>)
    done
qed

lemma inv_buyToyClick:
  assumes "rangeInv st"
  shows "rangeInv (buyToyClick now st)"
proof -
  from assms(1) have s: "statsInRange (stats (pet st))" by (simp add: rangeInv_def)
  show ?thesis
    unfolding buyToyClick_def
    by (rule inv_handleAction)
       (use s assms in \<open>simp_all add: changesInRange_def noChanges_def statsInRange_def\<close>)
qed

lemma inv_bathClick:
  assumes "rangeInv st" "gainsNonNegative cfg"
  shows "rangeInv (bathClick cfg now st)"
proof -
  from assms(1) have s: "statsInRange (stats (pet st))" by (simp add: rangeInv_def)
  from assms(2) have g: "0 \<le> bath_hygiene (bath_statChanges (bath (actions cfg)))"
    by (simp add: gainsNonNegative_def Let_def)
  show ?thesis
    unfolding bathClick_def Let_def
    by (rule inv_handleAction)
       (use s g assms(1) in \<open>simp_all add: changesInRange_def noChanges_def statsInRange_def\<close>)
qed

lemma inv_vetClick:
  assumes "rangeInv st" "gainsNonNegative cfg"
  shows "rangeInv (vetClick cfg now st)"
proof -
  from assms(1) have s: "statsInRange (stats (pet st))" by (simp add: rangeInv_def)
  from assms(2) have g: "0 \<le> vet_hygiene (vet_statChanges (vetVisit (actions cfg)))"
    "0 \<le> vet_happiness (vet_statChanges (vetVisit (actions cfg)))"
    "0 \<le> vet_energy (vet_statChanges (vetVisit (actions cfg)))"
    by (simp_all add: gainsNonNegative_def Let_def)
  show ?thesis
    unfolding vetClick_def Let_def
    by (rule inv_handleAction)
       (use s g assms(1) in \<open>simp_all add: changesInRange_def noChanges_def statsInRange_def\<close>)
qed

lemma inv_groomingClick:
  assumes "rangeInv st" "gainsNonNegative cfg"
  shows "rangeInv (groomingClick cfg now st)"
proof -
  from assms(1) have s: "statsInRange (stats (pet st))" by (simp add: rangeInv_def)
  from assms(2) have g: "0 \<le> grooming_hygiene (grooming_statChanges (grooming (actions cfg)))"
    by (simp add: gainsNonNegative_def Let_def)
  show ?thesis
    unfolding groomingClick_def Let_def
    by (rule inv_handleAction)
       (use s g assms(1) in \<open>simp_all add: changesInRange_def noChanges_def statsInRange_def\<close>)
qed

lemma inv_attempt:
  assumes "rangeInv st" "wfConfig cfg"
  shows "rangeInv (attempt cfg kind r1 r2 r3 now st)"
proof -
  from assms(2) have g: "gainsNonNegative cfg" by (simp add: wfConfig_def)
  have "rangeInv (onClick cfg kind r1 r2 r3 now st)"
    by (cases kind)
       (simp_all add: inv_feedClick inv_waterClick inv_exerciseClick inv_playClick
          inv_buyToyClick inv_bathClick inv_vetClick inv_groomingClick assms(1) g)
  with assms(1) show ?thesis by (simp add: attempt_def)
qed

lemma list_all_remove: "list_all P xs \<Longrightarrow> list_all P (take i xs @ drop (Suc i) xs)"
  by (auto simp: list_all_iff dest: in_set_takeD in_set_dropD)

lemma inv_fireEventTimer:
  assumes "rangeInv st"
  shows "rangeInv (fireEventTimer i now st)"
proof (cases "i < length (eventTimers st)")
  case False
  with assms show ?thesis by (simp add: fireEventTimer_def)
next
  case True
  from assms have s: "statsInRange (stats (pet st))" and l: "list_all subEventOk (eventTimers st)"
    by (simp_all add: rangeInv_def)
  from l True have ok: "subEventOk (eventTimers st ! i)" by (simp add: list_all_length)
  have i1: "rangeInv (st\<lparr>eventTimers := take i (eventTimers st) @ drop (Suc i) (eventTimers st)\<rparr>)"
    using assms list_all_remove [OF l, of i] by (simp add: rangeInv_def)
  show ?thesis
  proof (cases "eventTimers st ! i")
    case (HappinessBonus amount msg)
    with ok have "0 \<le> amount" by simp
    with s have r: "statsInRange ((stats (pet st))\<lparr>happiness := min 100 (happiness (stats (pet st)) + amount)\<rparr>)"
      by (simp add: statsInRange_def)
    have "rangeInv (setStats (\<lambda>s. s\<lparr>happiness := min 100 (happiness s + amount)\<rparr>)
                 (addEvent msg now
                   (st\<lparr>eventTimers := take i (eventTimers st) @ drop (Suc i) (eventTimers st)\<rparr>)))"
      by (rule inv_setStats) (simp add: i1, simp add: addEvent_def r)
    with True HappinessBonus show ?thesis
      by (simp add: fireEventTimer_def Let_def)
  next
    case (HygieneLoss amount msg)
    with ok have "0 \<le> amount" by simp
    with s have r: "statsInRange ((stats (pet st))\<lparr>hygiene := max 0 (hygiene (stats (pet st)) - amount)\<rparr>)"
      by (simp add: statsInRange_def)
    have "rangeInv (setStats (\<lambda>s. s\<lparr>hygiene := max 0 (hygiene s - amount)\<rparr>)
                 (addEvent msg now
                   (st\<lparr>eventTimers := take i (eventTimers st) @ drop (Suc i) (eventTimers st)\<rparr>)))"
      by (rule inv_setStats) (simp add: i1, simp add: addEvent_def r)
    with True HygieneLoss show ?thesis
      by (simp add: fireEventTimer_def Let_def)
  qed
qed

lemma inv_firePenaltyTimer:
  assumes "rangeInv st"
  shows "rangeInv (firePenaltyTimer i now st)"
proof -
  from assms have s: "statsInRange (stats (pet st))" by (simp add: rangeInv_def)
  then have "statsInRange ((stats (pet st))\<lparr>happiness := max 0 (happiness (stats (pet st)) - 30)\<rparr>)"
    by (simp add: statsInRange_def)
  with assms show ?thesis
    by (simp add: firePenaltyTimer_def Let_def rangeInv_def setStats_def addEvent_def)
qed

lemma inv_initDashboard: "statsInRange (stats p) \<Longrightarrow> rangeInv (initDashboard p now)"
  by (simp add: rangeInv_def initDashboard_def)

lemma reachable_inv: "reachable st \<Longrightarrow> rangeInv st"
proof (induction rule: reachable.induct)
  case (mounted initialPet now)
  then show ?case by (rule inv_initDashboard)
next
  case (restored st parsed now currentHour)
  then show ?case by (simp add: inv_loadSaved)
next
  case (purchased st cost now)
  then show ?case by (simp add: inv_purchase)
next
  case (sleep_checked st currentHour now)
  then show ?case by (simp add: inv_checkSleepCycle)
next
  case (decayed st currentHour currentMinute now)
  then show ?case by (simp add: inv_decayTick configOf_def wfConfig_petConfigOf)
next
  case (idled st rand rand2 now)
  then show ?case by (simp add: inv_idleEvent)
next
  case (refreshed st now)
  then show ?case by (simp add: inv_updateCountdowns)
next
  case (pressed st kind r1 r2 r3 now)
  then show ?case by (simp add: inv_attempt configOf_def wfConfig_petConfigOf)
next
  case (counted_down st now)
  then show ?case by (simp add: inv_countdownTick)
next
  case (sub_event st i now)
  then show ?case by (simp add: inv_fireEventTimer)
next
  case (penalty_due st i now)
  then show ?case by (simp add: inv_firePenaltyTimer)
qed

section \<open>Theorems: the overall score\<close>

subsection \<open>Doubles\<close>

lemma roundTiesToEven_int: "roundTiesToEven (real_of_int k) = k"
  by (simp add: roundTiesToEven_def)

lemma roundTiesToEven_near:
  assumes "real_of_int k - 1 / 2 < y" "y < real_of_int k + 1 / 2"
  shows "roundTiesToEven y = k"
proof (cases "y < real_of_int k")
  case True
  then have f: "\<lfloor>y\<rfloor> = k - 1" using assms by (simp add: floor_eq_iff)
  show ?thesis using assms True by (simp add: roundTiesToEven_def f Let_def)
next
  case False
  then have f: "\<lfloor>y\<rfloor> = k" using assms by (simp add: floor_eq_iff)
  show ?thesis using assms False by (simp add: roundTiesToEven_def f Let_def)
qed

lemma binade_eq:
  assumes "2 powr real_of_int k \<le> \<bar>x\<bar>" "\<bar>x\<bar> < 2 powr real_of_int (k + 1)"
  shows "binade x = k"
proof -
  have "0 < \<bar>x\<bar>" using assms(1) by (smt (verit) powr_gt_zero)
  then show ?thesis unfolding binade_def using assms by (simp add: floor_log_eq_powr_iff)
qed

text \<open>A double is returned as it is.\<close>

lemma toDouble_representable:
  assumes x: "x = real_of_int m * 2 powr real_of_int q" and m: "\<bar>m\<bar> < 2 ^ 53" and q: "- 1074 \<le> q"
  shows "toDouble x = x"
proof (cases "m = 0")
  case True
  then show ?thesis using x by (simp add: toDouble_def)
next
  case False
  have pos: "0 < (2::real) powr real_of_int q" by simp
  from False have x0: "x \<noteq> 0" using x by simp
  then have ax: "0 < \<bar>x\<bar>" by simp
  have "\<bar>x\<bar> = real_of_int \<bar>m\<bar> * 2 powr real_of_int q" using x by (simp add: abs_mult)
  also have "\<dots> < 2 ^ 53 * 2 powr real_of_int q"
  proof -
    have "real_of_int \<bar>m\<bar> < 2 ^ 53" using m by (metis of_int_less_numeral_power_cancel_iff)
    then show ?thesis using pos by simp
  qed
  also have "\<dots> = 2 powr real_of_int (53 + q)"
    by (simp add: powr_add powr_numeral)
  finally have "\<bar>x\<bar> < 2 powr real_of_int (53 + q)" .
  then have "log 2 \<bar>x\<bar> < real_of_int (53 + q)" using ax by (simp add: log_less_iff)
  then have "binade x < 53 + q" unfolding binade_def by (simp add: floor_less_iff)
  then have pq: "max (binade x - 52) (- 1074) \<le> q" using q by simp
  define p where "p = max (binade x - 52) (- 1074)"
  define u where "u = quantum x"
  have qu: "u = 2 powr real_of_int p" by (simp add: quantum_def p_def u_def)
  have "2 powr real_of_int q = 2 powr real_of_int (q - p) * 2 powr real_of_int p"
    by (simp add: powr_add [symmetric])
  also have "2 powr real_of_int (q - p) = 2 ^ nat (q - p)"
    by (subst powr_real_of_int) (use pq in \<open>simp_all add: p_def\<close>)
  finally have split: "2 powr real_of_int q = 2 ^ nat (q - p) * 2 powr real_of_int p" .
  have "x / u = real_of_int (m * 2 ^ nat (q - p))"
    unfolding qu x split by simp
  then have "roundTiesToEven (x / u) = m * 2 ^ nat (q - p)"
    by (simp only: roundTiesToEven_int)
  then have "toDouble x = real_of_int (m * 2 ^ nat (q - p)) * 2 powr real_of_int p"
    using x0 by (simp add: toDouble_def qu u_def [symmetric])
  also have "\<dots> = x" unfolding x split by simp
  finally show ?thesis .
qed

lemma toDouble_int: "\<bar>n\<bar> < 2 ^ 53 \<Longrightarrow> toDouble (real_of_int n) = real_of_int n"
  using toDouble_representable [of "real_of_int n" n 0] by simp

lemma toDouble_halves: "\<bar>n\<bar> < 2 ^ 53 \<Longrightarrow> toDouble (real_of_int n / 2) = real_of_int n / 2"
  using toDouble_representable [of "real_of_int n / 2" n "-1"] by (simp add: powr_minus field_simps)

lemma toDouble_numeral:
  "(numeral k :: int) < 2 ^ 53 \<Longrightarrow> toDouble (numeral k) = numeral k"
  using toDouble_int [of "numeral k"] by simp

lemma toDouble_nat: "n < 2 ^ 53 \<Longrightarrow> toDouble (real n) = real n"
  using toDouble_int [of "int n"] by simp

text \<open>Any other number moves by half the distance between neighbouring doubles at most.\<close>

lemma roundTiesToEven_close: "\<bar>real_of_int (roundTiesToEven y) - y\<bar> \<le> 1 / 2"
  unfolding roundTiesToEven_def Let_def by (simp; linarith)

lemma quantum_pos: "0 < quantum x"
  by (simp add: quantum_def)

lemma toDouble_error: "\<bar>toDouble x - x\<bar> \<le> quantum x / 2"
proof (cases "x = 0")
  case True
  then show ?thesis using quantum_pos [of x] by (simp add: toDouble_def)
next
  case False
  define u where "u = quantum x"
  have u: "0 < u" unfolding u_def by (rule quantum_pos)
  have "toDouble x - x = (real_of_int (roundTiesToEven (x / u)) - x / u) * u"
    using False u by (simp add: toDouble_def u_def [symmetric] algebra_simps)
  then have "\<bar>toDouble x - x\<bar> = \<bar>real_of_int (roundTiesToEven (x / u)) - x / u\<bar> * u"
    using u by (simp add: abs_mult)
  also have "\<dots> \<le> 1 / 2 * u"
    by (rule mult_right_mono [OF roundTiesToEven_close]) (use u in simp)
  finally show ?thesis by (simp add: u_def)
qed

lemma quantum_le:
  assumes "x \<noteq> 0" "\<bar>x\<bar> < 2 ^ k"
  shows "quantum x \<le> 2 ^ k / 2 ^ 53"
proof -
  have "\<bar>x\<bar> < 2 powr real k" using assms(2) by (simp add: powr_realpow)
  then have "log 2 \<bar>x\<bar> < real k" using assms(1) by (simp add: log_less_iff)
  then have "binade x < int k" unfolding binade_def by (simp add: floor_less_iff)
  then have "max (binade x - 52) (- 1074) \<le> int k - 53" by simp
  then have "quantum x \<le> 2 powr real_of_int (int k - 53)"
    unfolding quantum_def by (simp del: of_int_diff)
  also have "\<dots> = 2 ^ k / 2 ^ 53"
    by (simp add: powr_diff powr_realpow)
  finally show ?thesis .
qed

lemma toDouble_near:
  assumes "\<bar>x\<bar> < 2 ^ k"
  shows "\<bar>toDouble x - x\<bar> \<le> 2 ^ k / 2 ^ 54"
proof (cases "x = 0")
  case True
  then show ?thesis by (simp add: toDouble_def)
next
  case False
  from toDouble_error [of x] quantum_le [OF False assms] show ?thesis by simp
qed

text \<open>
  Where the doubles part from the exact sum: 200 + 52.49999999999999 is 252.5 in double
  arithmetic, the exact sum lying a quarter of the way from 252.5 to the double below it.
\<close>

lemma toDouble_tie: "toDouble (200 + (105 / 2 - 1 / 2 ^ 47)) = 505 / 2"
proof -
  define x :: real where "x = 200 + (105 / 2 - 1 / 2 ^ 47)"
  have b: "binade x = 7"
    by (rule binade_eq) (simp_all add: x_def powr_numeral[symmetric] del: powr_numeral)
  define u where "u = quantum x"
  have q: "u = 1 / 2 ^ 45" by (simp add: u_def quantum_def b powr_minus inverse_eq_divide)
  have r: "roundTiesToEven (x / u) = 505 * 2 ^ 44"
    by (rule roundTiesToEven_near) (simp_all add: q x_def)
  have "x \<noteq> 0" by (simp add: x_def)
  then have "toDouble x = 505 / 2" by (simp add: toDouble_def u_def [symmetric] r) (simp add: q)
  then show ?thesis by (simp only: x_def)
qed

subsection \<open>The score\<close>

lemma round_js_near: "\<bar>real_of_int (round_js x) - x\<bar> \<le> 1 / 2"
  unfolding round_js_def by linarith

lemma careKindsUsed_le: "careKindsUsed counts \<le> 6"
  by (simp add: careKindsUsed_def)

lemma varietyBonus_exact:
  "mulD (real (length (filter (\<lambda>c. c > 0)
           [cnt_feed counts, cnt_water counts, cnt_walk counts, cnt_play counts,
            cnt_bath counts, cnt_groom counts]))) 2 = 2 * real (careKindsUsed counts)"
proof -
  have l: "length (filter (\<lambda>c. c > 0)
           [cnt_feed counts, cnt_water counts, cnt_walk counts, cnt_play counts,
            cnt_bath counts, cnt_groom counts]) = careKindsUsed counts"
    by (simp add: careKindsUsed_def)
  have "careKindsUsed counts * 2 < 2 ^ 53" using careKindsUsed_le [of counts] by simp
  from toDouble_nat [OF this] show ?thesis unfolding l mulD_def by (simp add: mult.commute)
qed

lemma score_formula:
  "getOverallScore ps counts =
     round_js (min 100 (addD (avgStat ps) (min 10 (2 * real (careKindsUsed counts)))))"
  unfolding getOverallScore_def Let_def varietyBonus_exact ..

text \<open>For stats in range the doubles stay close to the exact average and score.\<close>

lemma avgStat_near:
  assumes "statsInRange ps"
  shows "\<bar>avgStat ps - (hunger ps + thirst ps + happiness ps + hygiene ps + energy ps) / 5\<bar>
           \<le> 1 / 2 ^ 45"
proof -
  from assms have r: "0 \<le> hunger ps" "hunger ps \<le> 100" "0 \<le> thirst ps" "thirst ps \<le> 100"
    "0 \<le> happiness ps" "happiness ps \<le> 100" "0 \<le> hygiene ps" "hygiene ps \<le> 100"
    "0 \<le> energy ps" "energy ps \<le> 100"
    by (simp_all add: statsInRange_def)
  define d :: real where "d = 1 / 2 ^ 46"
  have d: "0 \<le> d" "d \<le> 1" by (simp_all add: d_def)
  define a1 where "a1 = addD (hunger ps) (thirst ps)"
  define a2 where "a2 = addD a1 (happiness ps)"
  define a3 where "a3 = addD a2 (hygiene ps)"
  define a4 where "a4 = addD a3 (energy ps)"
  have b1: "\<bar>hunger ps + thirst ps\<bar> < 2 ^ 8" using r by simp
  have e1: "\<bar>a1 - (hunger ps + thirst ps)\<bar> \<le> d"
    unfolding a1_def addD_def d_def using toDouble_near [OF b1] by simp
  have "\<bar>a1 + happiness ps\<bar> < 512" using r e1 d by linarith
  then have b2: "\<bar>a1 + happiness ps\<bar> < 2 ^ 9" by simp
  have e2: "\<bar>a2 - (a1 + happiness ps)\<bar> \<le> 2 * d"
    unfolding a2_def addD_def d_def using toDouble_near [OF b2] by simp
  have "\<bar>a2 + hygiene ps\<bar> < 512" using r e1 e2 d by linarith
  then have b3: "\<bar>a2 + hygiene ps\<bar> < 2 ^ 9" by simp
  have e3: "\<bar>a3 - (a2 + hygiene ps)\<bar> \<le> 2 * d"
    unfolding a3_def addD_def d_def using toDouble_near [OF b3] by simp
  have "\<bar>a3 + energy ps\<bar> < 512" using r e1 e2 e3 d by linarith
  then have b4: "\<bar>a3 + energy ps\<bar> < 2 ^ 9" by simp
  have e4: "\<bar>a4 - (a3 + energy ps)\<bar> \<le> 2 * d"
    unfolding a4_def addD_def d_def using toDouble_near [OF b4] by simp
  have "\<bar>a4 / 5\<bar> < 128" using r e1 e2 e3 e4 d by linarith
  then have b5: "\<bar>a4 / 5\<bar> < 2 ^ 7" by simp
  have e5: "\<bar>divD a4 5 - a4 / 5\<bar> \<le> d / 2"
    unfolding divD_def d_def using toDouble_near [OF b5] by simp
  have "avgStat ps = divD a4 5" by (simp add: avgStat_def a1_def a2_def a3_def a4_def)
  moreover have "\<bar>divD a4 5 - (hunger ps + thirst ps + happiness ps + hygiene ps + energy ps) / 5\<bar>
                  \<le> 2 * d"
  proof -
    define S where "S = hunger ps + thirst ps + happiness ps + hygiene ps + energy ps"
    have "\<bar>a4 - S\<bar> \<le> 7 * d" unfolding S_def using e1 e2 e3 e4 by linarith
    then have "\<bar>a4 / 5 - S / 5\<bar> \<le> 7 * d / 5" by argo
    then have "\<bar>divD a4 5 - S / 5\<bar> \<le> 2 * d" using e5 d by argo
    then show ?thesis by (simp only: S_def)
  qed
  ultimately show ?thesis by (simp add: d_def)
qed

lemma score_near:
  assumes "statsInRange ps"
  shows "\<bar>real_of_int (getOverallScore ps counts) -
           min 100 ((hunger ps + thirst ps + happiness ps + hygiene ps + energy ps) / 5
                    + min 10 (2 * real (careKindsUsed counts)))\<bar> \<le> 1 / 2 + 1 / 2 ^ 44"
proof -
  from assms have r: "0 \<le> hunger ps" "hunger ps \<le> 100" "0 \<le> thirst ps" "thirst ps \<le> 100"
    "0 \<le> happiness ps" "happiness ps \<le> 100" "0 \<le> hygiene ps" "hygiene ps \<le> 100"
    "0 \<le> energy ps" "energy ps \<le> 100"
    by (simp_all add: statsInRange_def)
  define d :: real where "d = 1 / 2 ^ 46"
  have d: "0 \<le> d" "d \<le> 1" by (simp_all add: d_def)
  define x where "x = (hunger ps + thirst ps + happiness ps + hygiene ps + energy ps) / 5"
  define b where "b = min 10 (2 * real (careKindsUsed counts))"
  have x: "0 \<le> x" "x \<le> 100" using r by (simp_all add: x_def)
  have b: "0 \<le> b" "b \<le> 10" by (simp_all add: b_def)
  have a: "\<bar>avgStat ps - x\<bar> \<le> 2 * d"
    unfolding x_def d_def using avgStat_near [OF assms] by simp
  have "\<bar>avgStat ps + b\<bar> < 128" using a x b d by linarith
  then have bd: "\<bar>avgStat ps + b\<bar> < 2 ^ 7" by simp
  have e: "\<bar>addD (avgStat ps) b - (avgStat ps + b)\<bar> \<le> d / 2"
    unfolding addD_def d_def using toDouble_near [OF bd] by simp
  have m: "\<bar>min 100 (addD (avgStat ps) b) - min 100 (x + b)\<bar> \<le> 4 * d"
    using a e d by linarith
  have s: "getOverallScore ps counts = round_js (min 100 (addD (avgStat ps) b))"
    unfolding b_def by (rule score_formula)
  have "\<bar>real_of_int (getOverallScore ps counts) - min 100 (x + b)\<bar> \<le> 1 / 2 + 4 * d"
    unfolding s using round_js_near [of "min 100 (addD (avgStat ps) b)"] m by linarith
  then show ?thesis
    unfolding x_def b_def by (simp add: d_def)
qed

lemma avgStat_stats10: "avgStat stats10 = 10"
  by (simp add: avgStat_def stats10_def addD_def divD_def toDouble_numeral)

lemma kinds_without_vet: "cnt_vet counts = 0 \<Longrightarrow> distinctKindsUsed counts = careKindsUsed counts"
  by (simp add: distinctKindsUsed_def careKindsUsed_def)

lemma four_messages:
  "getActionCounts [''Finished feeding'', ''Finished giving water'', ''Finished playing'', ''Finished bath'']
     = fourKinds"
  by (simp add: getActionCounts_def countMessage_def toLowerCase_def bump_def fourKinds_def)

text \<open>
  The score follows the doubles: with energy at 52.49999999999999 and the other stats at
  50 the sum comes to the double 252.5, the average to 50.5 and the score to 51, where the
  exact average is below 50.5.
\<close>

lemma score_at_a_tie:
  "getOverallScore nearTie noActions = 51 \<and>
   (hunger nearTie + thirst nearTie + happiness nearTie + hygiene nearTie + energy nearTie) / 5
     < 101 / 2"
proof
  have "avgStat nearTie = divD (addD 200 (105 / 2 - 1 / 2 ^ 47)) 5"
    by (simp add: avgStat_def nearTie_def addD_def toDouble_numeral)
  also have "\<dots> = toDouble (101 / 2)" unfolding addD_def divD_def toDouble_tie by simp
  also have "\<dots> = 101 / 2" using toDouble_halves [of 101] by simp
  finally have a: "avgStat nearTie = 101 / 2" .
  have b: "addD (101 / 2) 0 = 101 / 2" unfolding addD_def using toDouble_halves [of 101] by simp
  have "careKindsUsed noActions = 0" by (simp add: careKindsUsed_def noActions_def)
  then show "getOverallScore nearTie noActions = 51"
    unfolding score_formula a by (simp add: b round_js_def)
  show "(hunger nearTie + thirst nearTie + happiness nearTie + hygiene nearTie + energy nearTie) / 5
     < 101 / 2"
    by (simp add: nearTie_def)
qed

text \<open>
  C4, as the code has it. The overall score is \<^verbatim>\<open>Math.round\<close> of the average of the
  five stats plus \<open>min(10, 2 \<times> k)\<close>, capped at 100, all in double arithmetic, where
  \<open>k\<close> counts the kinds among feed, water, walk, play, bath and groom that were used:
  the number of vet visits does not enter the score. For stats in range the score lies
  within \<open>1/2 + 2^-44\<close> of the exact value of that capped sum, which without vet
  visits is the specification's value. For stats all 10 with feed, water, play and bath
  counted once it is 18, an F.
\<close>

theorem overall_score_formula:
  "getOverallScore ps counts =
     round_js (min 100 (addD (avgStat ps) (min 10 (2 * real (careKindsUsed counts))))) \<and>
   getOverallScore ps (counts\<lparr>cnt_vet := v\<rparr>) = getOverallScore ps counts \<and>
   (statsInRange ps \<longrightarrow>
      \<bar>real_of_int (getOverallScore ps counts) -
         min 100 ((hunger ps + thirst ps + happiness ps + hygiene ps + energy ps) / 5
                  + min 10 (2 * real (careKindsUsed counts)))\<bar> \<le> 1 / 2 + 1 / 2 ^ 44) \<and>
   (statsInRange ps \<and> cnt_vet counts = 0 \<longrightarrow>
      \<bar>real_of_int (getOverallScore ps counts) - specScore ps counts\<bar> \<le> 1 / 2 + 1 / 2 ^ 44) \<and>
   getOverallScore stats10 fourKinds = 18 \<and>
   getGrade (real_of_int (getOverallScore stats10 fourKinds)) = ''F''"
proof (intro conjI impI)
  show "getOverallScore ps counts =
     round_js (min 100 (addD (avgStat ps) (min 10 (2 * real (careKindsUsed counts)))))"
    by (rule score_formula)
  show "getOverallScore ps (counts\<lparr>cnt_vet := v\<rparr>) = getOverallScore ps counts"
    by (simp add: getOverallScore_def)
  show "\<bar>real_of_int (getOverallScore ps counts) -
         min 100 ((hunger ps + thirst ps + happiness ps + hygiene ps + energy ps) / 5
                  + min 10 (2 * real (careKindsUsed counts)))\<bar> \<le> 1 / 2 + 1 / 2 ^ 44"
    if "statsInRange ps"
    using that by (rule score_near)
  show "\<bar>real_of_int (getOverallScore ps counts) - specScore ps counts\<bar> \<le> 1 / 2 + 1 / 2 ^ 44"
    if "statsInRange ps \<and> cnt_vet counts = 0"
  proof -
    from that have k: "distinctKindsUsed counts = careKindsUsed counts"
      by (simp add: kinds_without_vet)
    from that score_near [of ps counts] show ?thesis
      unfolding specScore_def k by simp
  qed
  show a: "getOverallScore stats10 fourKinds = 18"
    unfolding score_formula avgStat_stats10
    by (simp add: careKindsUsed_def fourKinds_def addD_def toDouble_numeral round_js_def)
  show "getGrade (real_of_int (getOverallScore stats10 fourKinds)) = ''F''"
    unfolding a by (simp add: getGrade_def)
qed

theorem overall_score_formula_witness:
  "statsInRange stats10 \<and> cnt_vet fourKinds = 0 \<and> specScore stats10 fourKinds = 18 \<and>
   getOverallScore stats10 fourKinds = 18 \<and>
   \<bar>real_of_int (getOverallScore stats10 fourKinds) - specScore stats10 fourKinds\<bar>
     \<le> 1 / 2 + 1 / 2 ^ 44 \<and>
   getOverallScore stats10 (fourKinds\<lparr>cnt_vet := 3\<rparr>) = 18"
proof -
  have s: "statsInRange stats10" "cnt_vet fourKinds = 0" "specScore stats10 fourKinds = 18"
    by (simp_all add: statsInRange_def stats10_def fourKinds_def specScore_def
        distinctKindsUsed_def)
  from overall_score_formula [of stats10 fourKinds 3] s show ?thesis by simp
qed

text \<open>
  C4 as stated fails where only a vet visit was logged: the specification's formula counts
  it as a kind and gives 12, the code gives 10.
\<close>

theorem overall_score_vet_counterexample:
  "getOverallScore stats10 vetOnly = 10 \<and> specScore stats10 vetOnly = 12 \<and>
   real_of_int (getOverallScore stats10 vetOnly) \<noteq> specScore stats10 vetOnly"
proof -
  have "getOverallScore stats10 vetOnly = 10"
    unfolding score_formula avgStat_stats10
    by (simp add: careKindsUsed_def vetOnly_def addD_def toDouble_numeral round_js_def)
  then show ?thesis
    by (simp add: specScore_def distinctKindsUsed_def stats10_def vetOnly_def)
qed

section \<open>Theorems: the sleep cycle\<close>

text \<open>
  C8. After a check of the sleep cycle at hour \<open>h\<close> the pet is asleep exactly when the
  specification's formula holds for the profile's window: a window with \<open>start > end\<close>
  crosses midnight.
\<close>

theorem sleep_cycle_formula:
  "(isSleeping (checkSleepCycle cfg h now st) \<longleftrightarrow>
      (sleep_start (sleepHours cfg) > sleep_end (sleepHours cfg) \<longrightarrow>
         (h \<ge> sleep_start (sleepHours cfg) \<or> h < sleep_end (sleepHours cfg))) \<and>
      (sleep_start (sleepHours cfg) \<le> sleep_end (sleepHours cfg) \<longrightarrow>
         (h \<ge> sleep_start (sleepHours cfg) \<and> h < sleep_end (sleepHours cfg)))) \<and>
   (shouldBeSleeping cfg h \<longleftrightarrow>
      (sleep_start (sleepHours cfg) > sleep_end (sleepHours cfg) \<longrightarrow>
         (h \<ge> sleep_start (sleepHours cfg) \<or> h < sleep_end (sleepHours cfg))) \<and>
      (sleep_start (sleepHours cfg) \<le> sleep_end (sleepHours cfg) \<longrightarrow>
         (h \<ge> sleep_start (sleepHours cfg) \<and> h < sleep_end (sleepHours cfg))))"
  by (auto simp add: checkSleepCycle_def shouldBeSleeping_def addEvent_def Let_def)

theorem sleep_cycle_formula_witness:
  "isSleeping (checkSleepCycle dogConfig 23 0 (initDashboard rex 0)) \<and>
   isSleeping (checkSleepCycle dogConfig 5 0 (initDashboard rex 0)) \<and>
   \<not> isSleeping (checkSleepCycle dogConfig 6 0 (initDashboard rex 0)) \<and>
   \<not> isSleeping (checkSleepCycle dogConfig 21 0 (initDashboard rex 0)) \<and>
   isSleeping (checkSleepCycle (dogConfig\<lparr>sleepHours := \<lparr>sleep_start = 1, sleep_end = 5\<rparr>\<rparr>) 1 0
     (initDashboard rex 0)) \<and>
   \<not> isSleeping (checkSleepCycle (dogConfig\<lparr>sleepHours := \<lparr>sleep_start = 1, sleep_end = 5\<rparr>\<rparr>) 5 0
     (initDashboard rex 0))"
  using sleep_cycle_formula [of dogConfig 23 0 "initDashboard rex 0"]
    sleep_cycle_formula [of dogConfig 5 0 "initDashboard rex 0"]
    sleep_cycle_formula [of dogConfig 6 0 "initDashboard rex 0"]
    sleep_cycle_formula [of dogConfig 21 0 "initDashboard rex 0"]
    sleep_cycle_formula [of "dogConfig\<lparr>sleepHours := \<lparr>sleep_start = 1, sleep_end = 5\<rparr>\<rparr>" 1 0 "initDashboard rex 0"]
    sleep_cycle_formula [of "dogConfig\<lparr>sleepHours := \<lparr>sleep_start = 1, sleep_end = 5\<rparr>\<rparr>" 5 0 "initDashboard rex 0"]
  by (simp add: dogConfig_def)

section \<open>Theorems: decay rates\<close>

text \<open>
  C7, as the code has it. For every profile and every stat vector, an awake tick takes
  from happiness its normal rate times the low-hunger and low-hygiene factors and from
  hygiene its normal rate; an asleep tick takes 30% of the normal rate from happiness,
  50% (not 25%) of the normal rate from hygiene, both cut off at 0, and adds 0.8 to
  energy up to 100.
\<close>

theorem asleep_rates:
  "happiness (awakeStats cfg daytime m s) =
     max 0 (happiness s - normalHappinessRate cfg * (if hunger s < 25 then 1.5 else 1)
                            * (if hygiene s < 40 then 1.5 else 1)) \<and>
   hygiene (awakeStats cfg daytime m s) = max 0 (hygiene s - normalHygieneRate cfg) \<and>
   happiness (asleepStats cfg s) = max 0 (happiness s - 0.3 * normalHappinessRate cfg) \<and>
   hygiene (asleepStats cfg s) = max 0 (hygiene s - 0.5 * normalHygieneRate cfg) \<and>
   energy (asleepStats cfg s) = min 100 (energy s + 0.8)"
  by (simp add: awakeStats_fields asleepStats_fields normalHappinessRate_def
      normalHygieneRate_def)

theorem asleep_rates_witness:
  "normalHappinessRate dogConfig = 1 / 90 \<and> normalHygieneRate dogConfig = 1 / 480 \<and>
   happiness (asleepStats dogConfig wornOut) = 40 - 0.3 * (1 / 90) \<and>
   hygiene (asleepStats dogConfig wornOut) = 30 - 0.5 * (1 / 480) \<and>
   energy (asleepStats dogConfig wornOut) = 100 \<and>
   happiness (awakeStats dogConfig True 0.5 wornOut) = 40 - 1.5 * 1.5 * (1 / 90) \<and>
   hygiene (awakeStats dogConfig True 0.5 wornOut) = 30 - 1 / 480"
proof -
  have r: "normalHappinessRate dogConfig = 1 / 90" "normalHygieneRate dogConfig = 1 / 480"
    by (simp_all add: normalHappinessRate_def normalHygieneRate_def dogConfig_def)
  from asleep_rates [of dogConfig True "0.5" wornOut]
  show ?thesis unfolding r by (simp add: wornOut_def)
qed

text \<open>
  C7 as stated fails for hygiene: for the dog at hygiene 80 an awake tick takes 1/480 and
  an asleep tick 1/960, which is half of it and not a quarter.
\<close>

theorem asleep_hygiene_quarter_counterexample:
  "hygiene stats80 - hygiene (awakeStats dogConfig True 0.5 stats80) = 1 / 480 \<and>
   hygiene stats80 - hygiene (asleepStats dogConfig stats80) = 1 / 960 \<and>
   hygiene stats80 - hygiene (asleepStats dogConfig stats80) \<noteq>
     0.25 * (hygiene stats80 - hygiene (awakeStats dogConfig True 0.5 stats80))"
  by (simp add: awakeStats_fields asleepStats_fields stats80_def dogConfig_def)

section \<open>Theorems: the decay clock against the catch-up\<close>

lemma clamp_twice:
  fixes x a c :: real
  shows "0 \<le> c \<Longrightarrow> max 0 (max 0 (x - a) - c) = max 0 (x - (a + c))"
  by (simp add: max_def)

lemma iterate_clamped_decay:
  fixes g :: "'a \<Rightarrow> real"
  assumes step: "\<And>t. g (f t) = max 0 (g t - c)" and c: "0 \<le> c" and s: "0 \<le> g s"
  shows "g ((f ^^ n) s) = max 0 (g s - real n * c)"
proof (induction n)
  case 0
  from s show ?case by simp
next
  case (Suc n)
  have "g ((f ^^ Suc n) s) = max 0 (max 0 (g s - real n * c) - c)"
    by (simp add: step Suc.IH)
  also have "\<dots> = max 0 (g s - (real n * c + c))" by (rule clamp_twice [OF c])
  also have "\<dots> = max 0 (g s - real (Suc n) * c)" by (simp add: algebra_simps)
  finally show ?case .
qed

lemma ticksAwake_hunger:
  assumes "0 < decay_hunger (decayRates cfg)" "0 \<le> hunger s"
  shows "hunger (ticksAwake cfg daytime n s) =
           max 0 (hunger s - real n * (0.5 / decay_hunger (decayRates cfg)))"
  unfolding ticksAwake_def
  by (rule iterate_clamped_decay) (use assms in \<open>simp_all add: awakeStats_fields\<close>)

lemma ticksAwake_thirst:
  assumes "0 < decay_thirst (decayRates cfg)" "0 \<le> thirst s"
  shows "thirst (ticksAwake cfg daytime n s) =
           max 0 (thirst s - real n * (0.5 / decay_thirst (decayRates cfg)))"
  unfolding ticksAwake_def
  by (rule iterate_clamped_decay) (use assms in \<open>simp_all add: awakeStats_fields\<close>)

lemma catchUp_hunger:
  "hunger (catchUpStats h hours sv) =
     max 0 (saved_hunger sv - (if isNight h then 0.2 else 1) * hours)"
  by (simp add: catchUpStats_def calculateDecay_def isNight_def Let_def)

lemma catchUp_thirst:
  "thirst (catchUpStats h hours sv) = max 0 (thirstOr80 (saved_thirst sv) - 2 * hours)"
  by (simp add: catchUpStats_def calculateDecay_def Let_def)

lemma catchUp_fields:
  "hunger (catchUpStats h hours sv) =
     max 0 (saved_hunger sv - (if isNight h then 1 * 0.2 * hours else 1 * hours))"
  "happiness (catchUpStats h hours sv) =
     max 0 (saved_happiness sv - (if isNight h then 0.5 * 0.2 * hours else 0.5 * hours))"
  "hygiene (catchUpStats h hours sv) = max 0 (saved_hygiene sv - 0.3 * hours)"
  "energy (catchUpStats h hours sv) = max 0 (saved_energy sv - 0.4 * hours)"
  "thirst (catchUpStats h hours sv) = max 0 (thirstOr80 (saved_thirst sv) - 2 * hours)"
  by (simp_all add: catchUpStats_def calculateDecay_def isNight_def Let_def)

lemma shipped_hunger_rate:
  "0 < decay_hunger (decayRates (petConfigOf t)) \<and> decay_hunger (decayRates (petConfigOf t)) < 60"
  by (simp add: petConfigOf_def petConfigs_def dogConfig_def catConfig_def parrotConfig_def
      rabbitConfig_def)

lemma clock_below_catch_up:
  assumes h: "0 \<le> hunger s" and n: "0 < n"
    and c: "0 < hunger (catchUpStats h (real n / 120) (savedOf s))"
  shows "hunger (ticksAwake (petConfigOf t) daytime n s)
           < hunger (catchUpStats h (real n / 120) (savedOf s))"
proof -
  define d where "d = decay_hunger (decayRates (petConfigOf t))"
  define f :: real where "f = (if isNight h then 0.2 else 1)"
  from shipped_hunger_rate [of t] have d: "0 < d" "d < 60" by (simp_all add: d_def)
  have f: "f \<le> 1" by (simp add: f_def)
  have cu: "hunger (catchUpStats h (real n / 120) (savedOf s)) = max 0 (hunger s - f * (real n / 120))"
    by (simp add: catchUp_hunger savedOf_def f_def)
  have tk: "hunger (ticksAwake (petConfigOf t) daytime n s) = max 0 (hunger s - real n * (0.5 / d))"
    unfolding d_def by (rule ticksAwake_hunger) (use d h in \<open>simp_all add: d_def\<close>)
  have r: "1 / 120 < 0.5 / d" using d by (simp add: field_simps)
  have "real n * (1 / 120) < real n * (0.5 / d)"
    by (rule mult_strict_left_mono [OF r]) (use n in simp)
  moreover have "f * (real n / 120) \<le> real n * (1 / 120)"
    using mult_right_mono [OF f, of "real n / 120"] by simp
  ultimately have lt: "f * (real n / 120) < real n * (0.5 / d)" by linarith
  from c have p: "0 < hunger s - f * (real n / 120)" unfolding cu by (simp add: max_def split: if_splits)
  show ?thesis unfolding cu tk using lt p by (simp add: max_def)
qed

text \<open>
  C2, as the code has it. Each engine is a function of its inputs, but the two use
  different rates. One awake tick of the decay clock takes \<open>(1 / rate) \<times> 0.5\<close>
  from hunger and from thirst and \<open>(1 / (2 \<times> rate)) \<times> 0.5\<close> from hygiene, with
  the profile's rates and cut off at 0; happiness goes by its rate times the low-hunger
  and low-hygiene factors; energy falls by \<open>(1 / rate) \<times> 0.5\<close> by day and rises by
  up to 2 otherwise, kept in [0, 100]. The catch-up over \<open>hours\<close> never reads the
  profile: it takes \<open>1 \<times> hours\<close> from hunger and \<open>0.5 \<times> hours\<close> from happiness
  (a fifth of either when the current hour is in the night band), \<open>0.3 \<times> hours\<close>
  from hygiene, \<open>0.4 \<times> hours\<close> from energy and \<open>2 \<times> hours\<close> from thirst (a
  saved thirst of 0 or none counting as 80), cut off at 0 only. With each of the shipped
  profiles, \<open>n \<ge> 1\<close> awake ticks from a hunger that is not negative leave less
  hunger than the catch-up over the same \<open>n / 120\<close> hours, whenever the catch-up
  leaves any.
\<close>

theorem decay_clock_and_catch_up:
  "hunger (awakeStats cfg daytime m s) =
     max 0 (hunger s - (1 / decay_hunger (decayRates cfg)) * 0.5) \<and>
   happiness (awakeStats cfg daytime m s) =
     max 0 (happiness s - ((1 / decay_happiness (decayRates cfg)) * 0.5 *
        (if hunger s < 25 then 1.5 else 1) * (if hygiene s < 40 then 1.5 else 1))) \<and>
   hygiene (awakeStats cfg daytime m s) =
     max 0 (hygiene s - (1 / (decay_hygiene (decayRates cfg) * 2)) * 0.5) \<and>
   energy (awakeStats cfg daytime m s) =
     min 100 (max 0 (energy s + (if daytime then - (1 / decay_energy (decayRates cfg)) * 0.5
                                 else min 2 (m / 10)))) \<and>
   thirst (awakeStats cfg daytime m s) =
     max 0 (thirst s - (1 / decay_thirst (decayRates cfg)) * 0.5) \<and>
   hunger (catchUpStats h hours sv) =
     max 0 (saved_hunger sv - (if isNight h then 1 * 0.2 * hours else 1 * hours)) \<and>
   happiness (catchUpStats h hours sv) =
     max 0 (saved_happiness sv - (if isNight h then 0.5 * 0.2 * hours else 0.5 * hours)) \<and>
   hygiene (catchUpStats h hours sv) = max 0 (saved_hygiene sv - 0.3 * hours) \<and>
   energy (catchUpStats h hours sv) = max 0 (saved_energy sv - 0.4 * hours) \<and>
   thirst (catchUpStats h hours sv) = max 0 (thirstOr80 (saved_thirst sv) - 2 * hours) \<and>
   (0 \<le> hunger s \<and> 0 < n \<and> 0 < hunger (catchUpStats h (real n / 120) (savedOf s)) \<longrightarrow>
      hunger (ticksAwake (petConfigOf t) daytime n s)
        < hunger (catchUpStats h (real n / 120) (savedOf s)))"
proof -
  have "hunger (ticksAwake (petConfigOf t) daytime n s)
        < hunger (catchUpStats h (real n / 120) (savedOf s))"
    if "0 \<le> hunger s" "0 < n" "0 < hunger (catchUpStats h (real n / 120) (savedOf s))"
    using that by (rule clock_below_catch_up)
  then show ?thesis
    unfolding awakeStats_fields catchUp_fields by blast
qed

theorem decay_clock_and_catch_up_witness:
  "0 \<le> hunger stats80 \<and> (0::nat) < 120 \<and>
   hunger (catchUpStats 12 (real (120::nat) / 120) (savedOf stats80)) = 79 \<and>
   hunger (ticksAwake (petConfigOf ''dog'') True 120 stats80) < 79 \<and>
   hunger (awakeStats dogConfig True 0.5 stats80) = 80 - 2 / 27 \<and>
   thirst (awakeStats dogConfig True 0.5 stats80) = 80 - 1 / 7 \<and>
   happiness (catchUpStats 23 1 (savedOf stats80)) = 80 - 1 / 10 \<and>
   happiness (catchUpStats 12 1 (savedOf stats80)) = 80 - 1 / 2 \<and>
   hygiene (catchUpStats 12 1 (savedOf stats80)) = 80 - 3 / 10 \<and>
   energy (catchUpStats 12 1 (savedOf stats80)) = 80 - 2 / 5 \<and>
   thirst (catchUpStats 12 1 (savedOf stats80)) = 78"
proof -
  have c: "hunger (catchUpStats 12 (real (120::nat) / 120) (savedOf stats80)) = 79"
    by (simp add: catchUp_hunger savedOf_def stats80_def isNight_def)
  have s: "0 \<le> hunger stats80" by (simp add: stats80_def)
  from decay_clock_and_catch_up [of dogConfig True "0.5" stats80 12 1 "savedOf stats80" 120 "''dog''"]
    decay_clock_and_catch_up [of dogConfig True "0.5" stats80 23 1 "savedOf stats80" 120 "''dog''"]
  show ?thesis
    unfolding c using s
    by (simp add: savedOf_def stats80_def dogConfig_def isNight_def thirstOr80_def truthy_def num_def)
qed

text \<open>
  C2 as stated fails: for the dog at noon, one hour of awake ticks leaves hunger at
  \<open>80 - 80/9\<close>, the catch-up over the same hour leaves 79.
\<close>

theorem decay_clock_vs_catch_up_counterexample:
  "ticksAwake dogConfig True 120 stats80 \<noteq> catchUpStats 12 (120 * 0.5 / 60) (savedOf stats80)"
proof
  assume "ticksAwake dogConfig True 120 stats80 = catchUpStats 12 (120 * 0.5 / 60) (savedOf stats80)"
  then have "hunger (ticksAwake dogConfig True 120 stats80) =
             hunger (catchUpStats 12 (120 * 0.5 / 60) (savedOf stats80))"
    by simp
  moreover have "hunger (ticksAwake dogConfig True 120 stats80) = 80 - 80 / 9"
    using ticksAwake_hunger [of dogConfig stats80 True 120] by (simp add: dogConfig_def stats80_def)
  moreover have "hunger (catchUpStats 12 (120 * 0.5 / 60) (savedOf stats80)) = 79"
    by (simp add: catchUp_hunger savedOf_def stats80_def isNight_def)
  ultimately show False by simp
qed

section \<open>Theorems: a thirst of 0 is reachable\<close>

lemma decayTick_awake:
  assumes "\<not> busy st" "\<not> isSleeping st"
  shows "thirst (stats (pet (decayTick cfg h m now st))) =
           max 0 (thirst (stats (pet st)) - 0.5 / decay_thirst (decayRates cfg))"
    and "busy (decayTick cfg h m now st) = busy st"
    and "isSleeping (decayTick cfg h m now st) = isSleeping st"
    and "pet_type (pet (decayTick cfg h m now st)) = pet_type (pet st)"
  using assms
  by (simp_all add: decayTick_def Let_def setStatsEmotion_def awakeStats_fields busy_def)

lemma awake_ticks_thirst:
  assumes "\<not> busy st" "\<not> isSleeping st" "0 \<le> thirst (stats (pet st))"
    "0 < decay_thirst (decayRates cfg)"
  shows "\<not> busy (((decayTick cfg h m now) ^^ n) st) \<and>
         \<not> isSleeping (((decayTick cfg h m now) ^^ n) st) \<and>
         pet_type (pet (((decayTick cfg h m now) ^^ n) st)) = pet_type (pet st) \<and>
         thirst (stats (pet (((decayTick cfg h m now) ^^ n) st))) =
           max 0 (thirst (stats (pet st)) - real n * (0.5 / decay_thirst (decayRates cfg)))"
proof -
  define c where "c = 0.5 / decay_thirst (decayRates cfg)"
  have c: "0 \<le> c" using assms(4) by (simp add: c_def)
  have "\<not> busy (((decayTick cfg h m now) ^^ n) st) \<and>
        \<not> isSleeping (((decayTick cfg h m now) ^^ n) st) \<and>
        pet_type (pet (((decayTick cfg h m now) ^^ n) st)) = pet_type (pet st) \<and>
        thirst (stats (pet (((decayTick cfg h m now) ^^ n) st))) =
          max 0 (thirst (stats (pet st)) - real n * c)"
  proof (induction n)
    case 0
    from assms show ?case by simp
  next
    case (Suc n)
    let ?s = "((decayTick cfg h m now) ^^ n) st"
    from Suc.IH have b: "\<not> busy ?s" "\<not> isSleeping ?s" by simp_all
    have "thirst (stats (pet (decayTick cfg h m now ?s))) =
            max 0 (max 0 (thirst (stats (pet st)) - real n * c) - c)"
      using Suc.IH by (simp only: decayTick_awake(1) [OF b] c_def)
    also have "\<dots> = max 0 (thirst (stats (pet st)) - (real n * c + c))"
      by (rule clamp_twice [OF c])
    also have "\<dots> = max 0 (thirst (stats (pet st)) - real (Suc n) * c)"
      by (simp add: algebra_simps)
    finally show ?case
      using Suc.IH by (simp add: decayTick_awake(2-4) [OF b])
  qed
  then show ?thesis unfolding c_def .
qed

lemma reachable_awake_ticks:
  assumes "reachable st" "\<not> busy st" "\<not> isSleeping st" "0 \<le> thirst (stats (pet st))"
    "0 < decay_thirst (decayRates (configOf st))"
  shows "reachable (((decayTick (configOf st) h m now) ^^ n) st)"
proof (induction n)
  case 0
  from assms(1) show ?case by simp
next
  case (Suc n)
  let ?s = "((decayTick (configOf st) h m now) ^^ n) st"
  from awake_ticks_thirst [OF assms(2-5), where h = h and m = m and now = now and n = n]
  have "configOf ?s = configOf st" by (simp add: configOf_def)
  with reachable.decayed [OF Suc.IH, where currentHour = h and currentMinute = m and now = now] show ?case by simp
qed

lemma thirst_zero_reachable:
  "reachable (((decayTick dogConfig 12 0 0) ^^ 560) (initDashboard rex 0)) \<and>
   thirst (stats (pet (((decayTick dogConfig 12 0 0) ^^ 560) (initDashboard rex 0)))) = 0"
proof -
  let ?st = "initDashboard rex 0"
  have c: "configOf ?st = dogConfig"
    by (simp add: configOf_def initDashboard_def rex_def petConfigOf_def petConfigs_def)
  have a: "\<not> busy ?st" "\<not> isSleeping ?st" "0 \<le> thirst (stats (pet ?st))"
    "0 < decay_thirst (decayRates dogConfig)"
    by (simp_all add: busy_def initDashboard_def rex_def dogConfig_def)
  have "statsInRange (stats rex)" by (simp add: rex_def statsInRange_def)
  then have r: "reachable ?st" by (rule reachable.mounted)
  from reachable_awake_ticks [OF r a(1-3), where h = 12 and m = 0 and now = 0 and n = 560] a(4)
  have "reachable (((decayTick dogConfig 12 0 0) ^^ 560) ?st)" by (simp add: c)
  moreover from awake_ticks_thirst [OF a, where h = 12 and m = 0 and now = 0 and n = 560]
  have "thirst (stats (pet (((decayTick dogConfig 12 0 0) ^^ 560) ?st))) = 0"
    by (simp add: initDashboard_def rex_def dogConfig_def)
  ultimately show ?thesis by simp
qed

section \<open>Theorems: the catch-up never raises a stat, but for a thirst of 0\<close>

lemma calculateDecay_le:
  "0 \<le> stat \<Longrightarrow> 0 \<le> hours \<Longrightarrow> 0 \<le> rate \<Longrightarrow> calculateDecay h stat rate hours \<le> stat"
  by (simp add: calculateDecay_def Let_def)

lemma catchUp_never_raises:
  assumes "savedInRange sv" "0 \<le> hours" "saved_thirst sv = Some t" "t \<noteq> 0"
  shows "hunger (catchUpStats h hours sv) \<le> saved_hunger sv \<and>
         happiness (catchUpStats h hours sv) \<le> saved_happiness sv \<and>
         hygiene (catchUpStats h hours sv) \<le> saved_hygiene sv \<and>
         energy (catchUpStats h hours sv) \<le> saved_energy sv \<and>
         thirst (catchUpStats h hours sv) \<le> t \<and>
         statsInRange (catchUpStats h hours sv)"
proof -
  from assms(1,3) have r: "0 \<le> saved_hunger sv" "0 \<le> saved_happiness sv"
    "0 \<le> saved_hygiene sv" "0 \<le> saved_energy sv" "0 \<le> t"
    by (simp_all add: savedInRange_def)
  have t: "thirstOr80 (saved_thirst sv) = t"
    using assms(3,4) by (simp add: thirstOr80_def truthy_def num_def)
  show ?thesis
    using calculateDecay_le [OF r(1) assms(2), of 1 h] calculateDecay_le [OF r(2) assms(2), of "0.5" h]
      calculateDecay_le [OF r(3) assms(2), of "0.3" h] calculateDecay_le [OF r(4) assms(2), of "0.4" h]
      calculateDecay_le [OF r(5) assms(2), of 2 h] catchUpStats_inRange [OF assms(1,2), of h]
    by (simp add: catchUpStats_def t)
qed

text \<open>
  C10 fails in the code at one input. A persisted thirst of 0 (a value the decay clock
  reaches, \<open>thirst_zero_reachable\<close>) is falsy, so the restore effect takes the default 80
  in its place: Rex, saved with thirst 0, comes back a minute later with thirst
  \<open>80 - 1/30\<close>.
\<close>

theorem catch_up_raises_zero_thirst:
  "saved_thirst (saved_stats thirstySave) = Some 0 \<and>
   thirst (stats (pet (initDashboard thirstyRex 60000))) = 0 \<and>
   thirst (stats (pet (loadSaved thirstySave 12 60000 (initDashboard thirstyRex 60000)))) = 80 - 1 / 30 \<and>
   thirst (catchUpStats 12 0 (saved_stats thirstySave)) = 80"
  by (simp add: thirstySave_def thirstyRex_def rex_def initDashboard_def loadSaved_def Let_def
      catchUp_thirst thirstOr80_def truthy_def num_def)

section \<open>Theorems: the action tiles\<close>

lemma handleAction_fields:
  "totalSpent (handleAction a c d ch e now st) = totalSpent st + c"
  "activeAction (handleAction a c d ch e now st) = Some a"
  "actionTimer (handleAction a c d ch e now st) = d"
  "interval (handleAction a c d ch e now st) =
     Some \<lparr>cd_action = a, cd_statChanges = ch, cd_effect = e\<rparr>"
  "pet (handleAction a c d ch e now st) = pet st"
  "feedCount (handleAction a c d ch e now st) = feedCount st"
  "hasToy (handleAction a c d ch e now st) = hasToy st"
  "penaltyTimers (handleAction a c d ch e now st) = penaltyTimers st"
  by (simp_all add: handleAction_def Let_def addEvent_def)

lemma addEvent_fields [simp]:
  "totalSpent (addEvent m now st) = totalSpent st"
  "activeAction (addEvent m now st) = activeAction st"
  "actionTimer (addEvent m now st) = actionTimer st"
  "interval (addEvent m now st) = interval st"
  "pet (addEvent m now st) = pet st"
  "feedCount (addEvent m now st) = feedCount st"
  "hasToy (addEvent m now st) = hasToy st"
  "penaltyTimers (addEvent m now st) = penaltyTimers st"
  "isSleeping (addEvent m now st) = isSleeping st"
  "eventTimers (addEvent m now st) = eventTimers st"
  by (simp_all add: addEvent_def)





lemma runEffect_slot [simp]:
  "interval (runEffect e now st) = interval st"
  "activeAction (runEffect e now st) = activeAction st"
  by (cases e; simp add: Let_def)+

lemma complete_slot:
  "interval (complete cd now st) = None" "activeAction (complete cd now st) = None"
  by (simp_all add: complete_def Let_def setStatsEmotion_def)


lemma fireEventTimer_slot [simp]:
  "interval (fireEventTimer i now st) = interval st"
  "activeAction (fireEventTimer i now st) = activeAction st"
  "penaltyTimers (fireEventTimer i now st) = penaltyTimers st"
  by (cases "eventTimers st ! i"; simp add: fireEventTimer_def setStats_def Let_def)+


lemma firePenaltyTimer_slot [simp]:
  "interval (firePenaltyTimer i now st) = interval st"
  "activeAction (firePenaltyTimer i now st) = activeAction st"
  by (simp_all add: firePenaltyTimer_def setStats_def Let_def)





lemma equipped_eval:
  "busy equipped = False" "isSleeping equipped = False" "hasToy equipped = True"
  "stats (pet equipped) = \<lparr> hunger = 30, happiness = 80, hygiene = 90, energy = 80, thirst = 80 \<rparr>"
  "pet_type (pet equipped) = ''dog''" "totalSpent equipped = 100" "feedCount equipped = 0"
  "configOf equipped = dogConfig" "lastWalkTime equipped = 0" "interval equipped = None"
  by (simp_all add: equipped_def handleInitialPurchaseComplete_def initDashboard_def rex_def
      busy_def addEvent_def configOf_def petConfigOf_def petConfigs_def)

lemma dog_tiles:
  "feed_triggerThreshold (feed (actions dogConfig)) = 35"
  "water_triggerThreshold (water (actions dogConfig)) = 70"
  "feed_cost (feed (actions dogConfig)) = 0" "feed_duration (feed (actions dogConfig)) = 5"
  "vet_cost (vetVisit (actions dogConfig)) = 100"
  "play_requiresToy (play (actions dogConfig)) = True" "play_minEnergy (play (actions dogConfig)) = 20"
  "play_cost (play (actions dogConfig)) = 0" "play_duration (play (actions dogConfig)) = 5"
  by (simp_all add: dogConfig_def)

lemma complete_actionTimer: "complete cd now (st\<lparr>actionTimer := t\<rparr>) = complete cd now st"
  by (cases "cd_effect cd")
     (simp_all add: complete_def Let_def setStatsEmotion_def addEvent_def)

lemma run_to_completion:
  assumes "interval st = Some cd" "actionTimer st = int (Suc n)"
  shows "((countdownTick now) ^^ Suc n) st = complete cd now st"
  using assms
proof (induction n arbitrary: st)
  case 0
  then show ?case by (simp add: countdownTick_def)
next
  case (Suc n)
  let ?st1 = "st\<lparr>actionTimer := int (Suc n)\<rparr>"
  from Suc.prems have t: "countdownTick now st = ?st1" by (simp add: countdownTick_def)
  have "((countdownTick now) ^^ Suc (Suc n)) st = ((countdownTick now) ^^ Suc n) (countdownTick now st)"
    by (simp only: funpow_Suc_right o_apply)
  also have "\<dots> = complete cd now ?st1"
    unfolding t using Suc.prems by (intro Suc.IH) simp_all
  also have "\<dots> = complete cd now st" by (rule complete_actionTimer)
  finally show ?case .
qed

lemma configOf_dog: "pet_type (pet st) = ''dog'' \<Longrightarrow> configOf st = dogConfig"
  by (simp add: configOf_def petConfigOf_def petConfigs_def)

lemma reachable_ticks: "reachable st \<Longrightarrow> reachable (((countdownTick now) ^^ n) st)"
  by (induction n) (simp_all add: reachable.counted_down)

subsection \<open>The walk countdown\<close>

lemma updateCountdowns_fields [simp]:
  "activeAction (updateCountdowns cfg now st) = activeAction st"
  "isSleeping (updateCountdowns cfg now st) = isSleeping st"
  "pet (updateCountdowns cfg now st) = pet st"
  "lastWalkTime (updateCountdowns cfg now st) = lastWalkTime st"
  "totalSpent (updateCountdowns cfg now st) = totalSpent st"
  "interval (updateCountdowns cfg now st) = interval st"
  by (simp_all add: updateCountdowns_def Let_def)

lemma busy_updateCountdowns [simp]: "busy (updateCountdowns cfg now st) = busy st"
  by (simp add: busy_def)








subsection \<open>The preconditions of a press\<close>




section \<open>Theorems: the dog's feed\<close>

lemma feedCount_complete:
  "cd_effect cd = FeedEffect \<Longrightarrow> feedCount (complete cd now st) = feedCount st + 1"
  by (simp add: complete_def Let_def setStatsEmotion_def)

text \<open>
  C6. For a dog whose Feed tile is enabled, a press charges nothing and runs for the base
  5 seconds while fewer than 120 feeds have been completed; from the 121st feed on
  (\<open>feedCount \<ge> 120\<close>) it charges the flat 25 and runs for 5 + 60 seconds. The profile's
  own feed cost and duration are 0 and 5. The counter grows by one when the action's
  countdown has run down, so it counts the lifetime feeds.
\<close>

theorem dog_feed_restock:
  fixes st :: Dashboard and r1 r2 r3 :: real and now :: int
  assumes "pet_type (pet st) = ''dog''" and "\<not> disabled (configOf st) Feed st"
  defines "fed \<equiv> attempt (configOf st) Feed r1 r2 r3 now st"
  shows "(feedCount st < 120 \<longrightarrow>
            totalSpent fed = totalSpent st \<and> actionTimer fed = 5 \<and>
            activeAction fed = Some ''Feeding'') \<and>
         (feedCount st \<ge> 120 \<longrightarrow>
            totalSpent fed = totalSpent st + 25 \<and> actionTimer fed = 5 + 60 \<and>
            activeAction fed = Some ''Getting food & Feeding'') \<and>
         feed_cost (feed (actions (configOf st))) = 0 \<and>
         feed_duration (feed (actions (configOf st))) = 5 \<and>
         feedCount (((countdownTick later) ^^ nat (actionTimer fed)) fed) = feedCount st + 1"
proof -
  note c = configOf_dog [OF assms(1)]
  have f: "fed = feedClick dogConfig now st"
    using assms(2) by (simp add: fed_def attempt_def c)
  have spent: "totalSpent fed = totalSpent st + (if feedCount st \<ge> 120 then 25 else 0)"
    and timer: "actionTimer fed = (if feedCount st \<ge> 120 then 5 + 60 else 5)"
    and label: "activeAction fed =
                  Some (if feedCount st \<ge> 120 then ''Getting food & Feeding'' else ''Feeding'')"
    and count: "feedCount fed = feedCount st"
    unfolding f
    by (simp_all add: feedClick_def Let_def handleAction_fields feedCost_def feedDuration_def
        assms(1) dog_tiles)
  obtain cd where cd: "interval fed = Some cd" "cd_effect cd = FeedEffect"
    unfolding f by (simp add: feedClick_def Let_def handleAction_fields assms(1))
  obtain n where n: "actionTimer fed = int (Suc n)" "nat (actionTimer fed) = Suc n"
  proof (cases "feedCount st \<ge> 120")
    case True
    with timer have "actionTimer fed = int (Suc 64)" "nat (actionTimer fed) = Suc 64" by simp_all
    then show ?thesis by (rule that)
  next
    case False
    with timer have "actionTimer fed = int (Suc 4)" "nat (actionTimer fed) = Suc 4" by simp_all
    then show ?thesis by (rule that)
  qed
  have "((countdownTick later) ^^ nat (actionTimer fed)) fed = complete cd later fed"
    unfolding n(2) by (rule run_to_completion [OF cd(1) n(1)])
  then have done_count:
    "feedCount (((countdownTick later) ^^ nat (actionTimer fed)) fed) = feedCount st + 1"
    by (simp add: feedCount_complete [OF cd(2)] count)
  show ?thesis
    using spent timer label done_count by (simp add: c dog_tiles)
qed

theorem dog_feed_restock_witness:
  "totalSpent (attempt dogConfig Feed 0 0 0 1000 equipped) = 100 \<and>
   actionTimer (attempt dogConfig Feed 0 0 0 1000 equipped) = 5 \<and>
   totalSpent (attempt dogConfig Feed 0 0 0 1000 (equipped\<lparr>feedCount := 120\<rparr>)) = 125 \<and>
   actionTimer (attempt dogConfig Feed 0 0 0 1000 (equipped\<lparr>feedCount := 120\<rparr>)) = 65 \<and>
   feedCount (((countdownTick 70000) ^^ 65)
      (attempt dogConfig Feed 0 0 0 1000 (equipped\<lparr>feedCount := 120\<rparr>))) = 121"
proof -
  let ?late = "equipped\<lparr>feedCount := 120\<rparr>"
  have e: "pet ?late = pet equipped" "busy ?late = busy equipped"
    "isSleeping ?late = isSleeping equipped" "totalSpent ?late = totalSpent equipped"
    by (simp_all add: busy_def)
  have t: "pet_type (pet equipped) = ''dog''" "pet_type (pet ?late) = ''dog''"
    by (simp_all add: equipped_eval)
  have c: "configOf equipped = dogConfig" "configOf ?late = dogConfig"
    by (simp_all add: configOf_dog t)
  have d: "\<not> disabled (configOf equipped) Feed equipped" "\<not> disabled (configOf ?late) Feed ?late"
    unfolding c by (simp_all add: e equipped_eval dog_tiles)
  from dog_feed_restock [OF t(1) d(1), of 0 0 0 1000 70000]
    dog_feed_restock [OF t(2) d(2), of 0 0 0 1000 70000]
  show ?thesis
    unfolding c by (elim conjE) (simp add: equipped_eval)
qed

section \<open>Theorems: the broken toy\<close>

lemma staleToy_frame:
  "staleToy st \<Longrightarrow> interval st' = interval st \<Longrightarrow> penaltyTimers st' = penaltyTimers st
   \<Longrightarrow> staleToy st'"
  by (simp add: staleToy_def)

lemma onClick_toyWasHeld:
  assumes "\<not> disabled cfg kind st"
  shows "\<exists>cd. interval (onClick cfg kind r1 r2 r3 now st) = Some cd \<and> toyWasHeld (cd_effect cd)"
  using assms
  by (cases kind)
     (auto simp add: feedClick_def waterClick_def exerciseClick_def playClick_def buyToyClick_def
        bathClick_def vetClick_def groomingClick_def Let_def handleAction_fields)

lemma onClick_penaltyTimers:
  "penaltyTimers (onClick cfg kind r1 r2 r3 now st) = penaltyTimers st"
  by (cases kind)
     (simp_all add: feedClick_def waterClick_def exerciseClick_def playClick_def buyToyClick_def
        bathClick_def vetClick_def groomingClick_def Let_def handleAction_fields)

lemma staleToy_attempt: "staleToy st \<Longrightarrow> staleToy (attempt cfg kind r1 r2 r3 now st)"
proof (cases "disabled cfg kind st")
  case True
  then show "staleToy st \<Longrightarrow> ?thesis" by (simp add: attempt_def)
next
  case False
  assume s: "staleToy st"
  from onClick_toyWasHeld [OF False, of r1 r2 r3 now] obtain cd where
    "interval (onClick cfg kind r1 r2 r3 now st) = Some cd" "toyWasHeld (cd_effect cd)" by blast
  with s False show ?thesis
    by (simp add: attempt_def staleToy_def onClick_penaltyTimers)
qed

lemma runEffect_penaltyTimers:
  "toyWasHeld e \<Longrightarrow> list_all (\<lambda>b. b) (penaltyTimers st)
   \<Longrightarrow> list_all (\<lambda>b. b) (penaltyTimers (runEffect e now st))"
  by (cases e) (simp_all add: Let_def split: if_splits)

lemma staleToy_complete:
  assumes "staleToy st" "interval st = Some cd"
  shows "staleToy (complete cd now st)"
proof -
  from assms have h: "toyWasHeld (cd_effect cd)" and l: "list_all (\<lambda>b. b) (penaltyTimers st)"
    by (simp_all add: staleToy_def)
  have "list_all (\<lambda>b. b) (penaltyTimers (runEffect (cd_effect cd) now
          (setStatsEmotion (applyChanges (cd_statChanges cd)) False
             (st\<lparr>interval := None, activeAction := None\<rparr>))))"
    by (rule runEffect_penaltyTimers [OF h]) (simp add: setStatsEmotion_def Let_def l)
  then show ?thesis
    by (simp add: staleToy_def complete_slot) (simp add: complete_def Let_def)
qed

lemma staleToy_countdownTick: "staleToy st \<Longrightarrow> staleToy (countdownTick now st)"
proof (cases "interval st")
  case None
  then show "staleToy st \<Longrightarrow> ?thesis" by (simp add: countdownTick_def)
next
  case (Some cd)
  assume s: "staleToy st"
  have "staleToy (st\<lparr>actionTimer := actionTimer st - 1\<rparr>)"
    by (rule staleToy_frame [OF s]) simp_all
  with staleToy_complete [OF s Some] Some show ?thesis by (simp add: countdownTick_def)
qed

lemma penaltyTimers_fire:
  "penaltyTimers (firePenaltyTimer i now st) =
     (if i < length (penaltyTimers st)
      then take i (penaltyTimers st) @ drop (Suc i) (penaltyTimers st)
      else penaltyTimers st)"
  by (simp add: firePenaltyTimer_def Let_def setStats_def)

lemma staleToy_firePenaltyTimer: "staleToy st \<Longrightarrow> staleToy (firePenaltyTimer i now st)"
  using list_all_remove [of "\<lambda>b. b" "penaltyTimers st" i]
  by (simp add: staleToy_def penaltyTimers_fire del: list_all_append)

lemma reachable_staleToy: "reachable st \<Longrightarrow> staleToy st"
proof (induction rule: reachable.induct)
  case (mounted initialPet now)
  show ?case by (simp add: staleToy_def initDashboard_def)
next
  case (restored st parsed now currentHour)
  from restored.IH show ?case
    by (rule staleToy_frame) (simp_all add: loadSaved_def Let_def)
next
  case (purchased st cost now)
  from purchased.IH show ?case
    by (rule staleToy_frame) (simp_all add: handleInitialPurchaseComplete_def)
next
  case (sleep_checked st currentHour now)
  from sleep_checked.IH show ?case
    by (rule staleToy_frame) (simp_all add: checkSleepCycle_def)
next
  case (decayed st currentHour currentMinute now)
  from decayed.IH show ?case
    by (rule staleToy_frame) (simp_all add: decayTick_def setStatsEmotion_def Let_def)
next
  case (idled st rand rand2 now)
  from idled.IH show ?case
    by (rule staleToy_frame) (simp_all add: idleEvent_def)
next
  case (refreshed st now)
  from refreshed.IH show ?case
    by (rule staleToy_frame) (simp_all add: updateCountdowns_def Let_def)
next
  case (pressed st kind r1 r2 r3 now)
  then show ?case by (simp add: staleToy_attempt)
next
  case (counted_down st now)
  then show ?case by (simp add: staleToy_countdownTick)
next
  case (sub_event st i now)
  from sub_event.IH show ?case
    by (rule staleToy_frame) simp_all
next
  case (penalty_due st i now)
  then show ?case by (simp add: staleToy_firePenaltyTimer)
qed

lemma toyBroken_eval:
  "toyBroken = complete \<lparr>cd_action = ''Playing'',
       cd_statChanges = \<lparr> new_hunger = Some 24, new_happiness = Some 95, new_hygiene = Some 87,
                          new_energy = Some 60, new_thirst = Some 50 \<rparr>,
       cd_effect = PlayEffect True True\<rparr> 6000 playing"
proof -
  have d: "\<not> disabled dogConfig Play equipped" by (simp add: equipped_eval dog_tiles)
  have p: "playing = playClick dogConfig 0.5 0.5 0.05 1000 equipped"
    using d by (simp add: playing_def attempt_def equipped_eval)
  have i: "interval playing = Some \<lparr>cd_action = ''Playing'',
       cd_statChanges = \<lparr> new_hunger = Some 24, new_happiness = Some 95, new_hygiene = Some 87,
                          new_energy = Some 60, new_thirst = Some 50 \<rparr>,
       cd_effect = PlayEffect True True\<rparr>"
    unfolding p
    by (simp add: playClick_def Let_def handleAction_fields equipped_eval noChanges_def
        truthy_def num_def dogConfig_def)
  have t: "actionTimer playing = int (Suc 4)"
    unfolding p by (simp add: playClick_def Let_def handleAction_fields dog_tiles)
  show ?thesis
    unfolding toyBroken_def using run_to_completion [OF i t, of 6000]
    by (simp add: numeral_eq_Suc)
qed

lemma reachable_toyBroken: "reachable toyBroken"
proof -
  have "statsInRange (stats rex)" by (simp add: rex_def statsInRange_def)
  then have "reachable (initDashboard rex 0)" by (rule reachable.mounted)
  then have "reachable equipped" unfolding equipped_def by (rule reachable.purchased)
  then have "reachable playing" unfolding playing_def by (rule reachable.pressed)
  then show ?thesis unfolding toyBroken_def by (rule reachable_ticks)
qed

lemma toyBroken_fields:
  "hasToy toyBroken = False" "penaltyTimers toyBroken = [True]"
  "happiness (stats (pet toyBroken)) = 95" "busy toyBroken = False"
proof -
  have d: "\<not> disabled dogConfig Play equipped" by (simp add: equipped_eval dog_tiles)
  have p: "playing = playClick dogConfig 0.5 0.5 0.05 1000 equipped"
    using d by (simp add: playing_def attempt_def equipped_eval)
  have q: "penaltyTimers playing = []" "stats (pet playing) = stats (pet equipped)"
    unfolding p
    by (simp_all add: playClick_def Let_def handleAction_fields equipped_def
        handleInitialPurchaseComplete_def initDashboard_def)
  show "hasToy toyBroken = False" "penaltyTimers toyBroken = [True]"
    "happiness (stats (pet toyBroken)) = 95" "busy toyBroken = False"
    unfolding toyBroken_eval
    by (simp_all add: complete_def Let_def setStatsEmotion_def applyChanges_def q busy_def)
qed

text \<open>
  C9 fails in the code. The one-hour callback of a broken toy tests \<^verbatim>\<open>hasToy\<close> of the
  render in which Play was pressed, and Play can only be pressed (with a toy that can
  break) while that value is true. So in every reachable state a penalty timeout that
  fires changes neither the stats nor the event log: the penalty is applied zero times,
  whether or not a toy was bought in between.
\<close>

theorem toy_penalty_never_applied:
  assumes "reachable st"
  shows "stats (pet (firePenaltyTimer i now st)) = stats (pet st) \<and>
         events (firePenaltyTimer i now st) = events st \<and>
         hasToy (firePenaltyTimer i now st) = hasToy st"
proof (cases "i < length (penaltyTimers st)")
  case False
  then show ?thesis by (simp add: firePenaltyTimer_def)
next
  case True
  from reachable_staleToy [OF assms] have "list_all (\<lambda>b. b) (penaltyTimers st)"
    by (simp add: staleToy_def)
  with True have "penaltyTimers st ! i" by (simp add: list_all_length)
  with True show ?thesis by (simp add: firePenaltyTimer_def Let_def)
qed

theorem toy_penalty_never_applied_witness:
  "reachable toyBroken \<and> \<not> hasToy toyBroken \<and> \<not> busy toyBroken \<and>
   penaltyTimers toyBroken = [True] \<and>
   happiness (stats (pet toyBroken)) = 95 \<and>
   happiness (stats (pet (firePenaltyTimer 0 3606000 toyBroken))) = 95 \<and>
   events (firePenaltyTimer 0 3606000 toyBroken) = events toyBroken \<and>
   penaltyTimers (firePenaltyTimer 0 3606000 toyBroken) = []"
  using toy_penalty_never_applied [OF reachable_toyBroken, of 0 3606000] reachable_toyBroken
  by (simp add: toyBroken_fields penaltyTimers_fire)

section \<open>Theorems: the stats stay in range, along a run\<close>

lemma toyBroken_stats:
  "stats (pet toyBroken) =
     \<lparr> hunger = 24, happiness = 95, hygiene = 87, energy = 60, thirst = 50 \<rparr>"
  "isSleeping toyBroken = False" "configOf toyBroken = dogConfig"
proof -
  have d: "\<not> disabled dogConfig Play equipped" by (simp add: equipped_eval dog_tiles)
  have p: "playing = playClick dogConfig 0.5 0.5 0.05 1000 equipped"
    using d by (simp add: playing_def attempt_def equipped_eval)
  have q: "isSleeping playing = False" "pet_type (pet playing) = ''dog''"
    unfolding p
    by (simp_all add: playClick_def Let_def handleAction_def addEvent_def equipped_eval)
  show "stats (pet toyBroken) =
     \<lparr> hunger = 24, happiness = 95, hygiene = 87, energy = 60, thirst = 50 \<rparr>"
    "isSleeping toyBroken = False"
    unfolding toyBroken_eval
    by (simp_all add: complete_def Let_def setStatsEmotion_def applyChanges_def addEvent_def q)
  have "pet_type (pet toyBroken) = ''dog''"
    unfolding toyBroken_eval
    by (simp add: complete_def Let_def setStatsEmotion_def addEvent_def q)
  then show "configOf toyBroken = dogConfig" by (rule configOf_dog)
qed

lemma decayTick_toyBroken:
  "stats (pet (decayTick dogConfig 12 0 36000 toyBroken)) =
     \<lparr> hunger = 24 - 2 / 27, happiness = 95 - 1 / 60, hygiene = 87 - 1 / 480,
       energy = 60 - 1 / 20, thirst = 50 - 1 / 7 \<rparr>"
proof -
  have d: "isDaytime dogConfig 12 0" by (simp add: isDaytime_def dogConfig_def)
  have "stats (pet (decayTick dogConfig 12 0 36000 toyBroken)) =
          awakeStats dogConfig True (real_of_int (36000 - lastRestTime toyBroken) / (1000 * 60))
            (stats (pet toyBroken))"
    by (simp add: decayTick_def toyBroken_fields toyBroken_stats setStatsEmotion_def Let_def d)
  also have "\<dots> = \<lparr> hunger = 24 - 2 / 27, happiness = 95 - 1 / 60, hygiene = 87 - 1 / 480,
       energy = 60 - 1 / 20, thirst = 50 - 1 / 7 \<rparr>"
    unfolding toyBroken_stats by (simp add: awakeStats_def Let_def dogConfig_def)
  finally show ?thesis .
qed

lemma loadSaved_rexSave:
  "stats (pet (loadSaved rexSave 12 3600000 (initDashboard rex 0))) =
     \<lparr> hunger = 29, happiness = 159 / 2, hygiene = 897 / 10, energy = 398 / 5, thirst = 78 \<rparr>"
  by (simp add: loadSaved_def Let_def catchUpStats_def calculateDecay_def thirstOr80_def
      truthy_def num_def initDashboard_def rex_def rexSave_def)

text \<open>
  C1, as the code has it. In every state the screen reaches from a pet whose stats are in
  range, each record it restores holding stats in range and being written no later than
  the clock reads at the restore, each of the five stats lies in [0,100]; so it does after
  one more decay tick (either branch), after one more tick of the action countdown (which
  writes the action's stat changes when the timer has run down), and after a catch-up
  from such a record.
\<close>

theorem stats_stay_in_range:
  assumes "reachable st"
  shows "statsInRange (stats (pet st)) \<and>
         statsInRange (awakeStats (configOf st) daytime minutesSinceRest (stats (pet st))) \<and>
         statsInRange (asleepStats (configOf st) (stats (pet st))) \<and>
         statsInRange (stats (pet (decayTick (configOf st) currentHour currentMinute now st))) \<and>
         statsInRange (stats (pet (countdownTick now st))) \<and>
         (savedInRange (saved_stats parsed) \<and> lastSaved parsed \<le> now \<longrightarrow>
            statsInRange (stats (pet (loadSaved parsed currentHour now st))))"
proof -
  have i: "rangeInv st" by (rule reachable_inv [OF assms])
  then have s: "statsInRange (stats (pet st))" by (simp add: rangeInv_def)
  have w: "wfConfig (configOf st)" by (simp add: configOf_def wfConfig_petConfigOf)
  then have p: "positiveRates (configOf st)" and sl: "0 < sleepMinutes (configOf st)"
    by (simp_all add: wfConfig_def)
  have "rangeInv (decayTick (configOf st) currentHour currentMinute now st)"
    by (rule inv_decayTick [OF i w])
  moreover have "rangeInv (countdownTick now st)" by (rule inv_countdownTick [OF i])
  moreover have "rangeInv (loadSaved parsed currentHour now st)"
    if "savedInRange (saved_stats parsed)" "lastSaved parsed \<le> now"
    using that by (rule inv_loadSaved [OF i])
  ultimately show ?thesis
    using s awakeStats_inRange [OF p s] asleepStats_inRange [OF p sl s]
    by (simp add: rangeInv_def)
qed

text \<open>
  Along a run: the play action ends on its fifth tick and writes its stat changes, a
  decay tick at noon follows, and a record an hour old is restored.
\<close>

theorem stats_stay_in_range_witness:
  "reachable toyBroken \<and>
   stats (pet (countdownTick 6000 (((countdownTick 6000) ^^ 4) playing))) =
     \<lparr> hunger = 24, happiness = 95, hygiene = 87, energy = 60, thirst = 50 \<rparr> \<and>
   statsInRange (stats (pet (countdownTick 6000 (((countdownTick 6000) ^^ 4) playing)))) \<and>
   stats (pet (decayTick (configOf toyBroken) 12 0 36000 toyBroken)) =
     \<lparr> hunger = 24 - 2 / 27, happiness = 95 - 1 / 60, hygiene = 87 - 1 / 480,
       energy = 60 - 1 / 20, thirst = 50 - 1 / 7 \<rparr> \<and>
   statsInRange (stats (pet (decayTick (configOf toyBroken) 12 0 36000 toyBroken))) \<and>
   savedInRange (saved_stats rexSave) \<and> lastSaved rexSave \<le> 3600000 \<and>
   stats (pet (loadSaved rexSave 12 3600000 (initDashboard rex 0))) =
     \<lparr> hunger = 29, happiness = 159 / 2, hygiene = 897 / 10, energy = 398 / 5, thirst = 78 \<rparr> \<and>
   statsInRange (stats (pet (loadSaved rexSave 12 3600000 (initDashboard rex 0))))"
proof -
  have "statsInRange (stats rex)" by (simp add: rex_def statsInRange_def)
  then have r0: "reachable (initDashboard rex 0)" by (rule reachable.mounted)
  then have "reachable equipped" unfolding equipped_def by (rule reachable.purchased)
  then have "reachable playing" unfolding playing_def by (rule reachable.pressed)
  then have r4: "reachable (((countdownTick 6000) ^^ 4) playing)" by (rule reachable_ticks)
  have e: "countdownTick 6000 (((countdownTick 6000) ^^ 4) playing) = toyBroken"
    by (simp add: toyBroken_def eval_nat_numeral)
  have sv: "savedInRange (saved_stats rexSave)" "lastSaved rexSave \<le> 3600000"
    by (simp_all add: savedInRange_def rexSave_def)
  from stats_stay_in_range [OF r4, where now = 6000]
  have 1: "statsInRange (stats (pet (countdownTick 6000 (((countdownTick 6000) ^^ 4) playing))))"
    by blast
  from stats_stay_in_range [OF reachable_toyBroken, where currentHour = 12 and currentMinute = 0
      and now = 36000]
  have 2: "statsInRange (stats (pet (decayTick (configOf toyBroken) 12 0 36000 toyBroken)))"
    by blast
  from stats_stay_in_range [OF r0, where now = 3600000 and parsed = rexSave and currentHour = 12] sv
  have 3: "statsInRange (stats (pet (loadSaved rexSave 12 3600000 (initDashboard rex 0))))"
    by blast
  from 1 2 3 sv reachable_toyBroken show ?thesis
    by (simp add: e toyBroken_stats decayTick_toyBroken loadSaved_rexSave)
qed

text \<open>
  C1 as stated fails for the catch-up when the clock was set back between the save and
  the restore: the elapsed time is negative, \<^verbatim>\<open>calculateDecay\<close> cuts off at 0 only, and
  a record written with every stat at 100 an hour after the clock's reading is restored
  with hunger at 101 and thirst at 102.
\<close>

theorem catch_up_clock_set_back_counterexample:
  "reachable (initDashboard rex 0) \<and> savedInRange (saved_stats fullSave) \<and>
   lastSaved fullSave = 3600000 \<and>
   stats (pet (loadSaved fullSave 12 0 (initDashboard rex 0))) =
     \<lparr> hunger = 101, happiness = 201 / 2, hygiene = 1003 / 10, energy = 502 / 5,
       thirst = 102 \<rparr> \<and>
   \<not> statsInRange (stats (pet (loadSaved fullSave 12 0 (initDashboard rex 0))))"
proof -
  have "statsInRange (stats rex)" by (simp add: rex_def statsInRange_def)
  then have r0: "reachable (initDashboard rex 0)" by (rule reachable.mounted)
  have l: "stats (pet (loadSaved fullSave 12 0 (initDashboard rex 0))) =
     \<lparr> hunger = 101, happiness = 201 / 2, hygiene = 1003 / 10, energy = 502 / 5,
       thirst = 102 \<rparr>"
    by (simp add: loadSaved_def Let_def catchUpStats_def calculateDecay_def thirstOr80_def
        truthy_def num_def initDashboard_def rex_def fullSave_def)
  show ?thesis
    unfolding l using r0 by (simp add: savedInRange_def statsInRange_def fullSave_def)
qed

end
